theory Spec2Isabelle
  imports Main "HOL-Library.AList"
begin

section \<open>Data model\<close>

text \<open>
  A shallow embedding of the connection manager \<open>MCPClient\<close> and of the configuration
  types it is built on.  Every thrown JavaScript value is a value of \<open>js_error\<close>; a
  computation that may throw returns \<open>js_error + 'a\<close> (\<open>Inl\<close> the thrown value) together
  with the manager state it leaves behind.
\<close>

datatype js_error = JsError (err_name: string) (err_message: string)

text \<open>JSON values, as they appear in tool schemas, tool inputs and tool results.\<close>

datatype json =
    JNull
  | JBool bool
  | JNum int
  | JStr string
  | JArr "json list"
  | JObj "(string \<times> json) list"

text \<open>
  The two validated configuration shapes (\<open>MCPStdioConfigZodSchema\<close>,
  \<open>MCPSseConfigZodSchema\<close>).  An optional field is an \<open>option\<close>.
\<close>

record mcp_stdio_config =
  command :: string
  args :: "string list option"
  env :: "(string \<times> string) list option"

record mcp_sse_config =
  url :: string
  headers :: "(string \<times> string) list option"

text \<open>
  The value held in \<open>serverConfig\<close> at run time: an object with a string \<open>command\<close>, an
  object with a string \<open>url\<close>, or anything else.
\<close>

datatype mcp_server_config =
    StdioShaped mcp_stdio_config
  | SseShaped mcp_sse_config
  | OtherShaped

text \<open>A tool as the remote server lists it; \<open>inputSchema\<close> is a JSON object.\<close>

record tool_descriptor =
  tool_name :: string
  tool_description :: "string option"
  tool_inputSchema :: "(string \<times> json) list"

text \<open>\<open>MCPToolInfo\<close>.\<close>

record mcp_tool_info =
  ti_name :: string
  ti_description :: "string option"
  ti_inputSchema :: "(string \<times> json) list"

text \<open>
  A tool wrapper of the AI SDK: its parameter schema, its description, and the tool name
  its \<open>execute\<close> closure is bound to.
\<close>

record tool_wrapper =
  tw_parameters :: "(string \<times> json) list"
  tw_description :: "string option"
  tw_tool :: string

text \<open>The result of a remote tool call: \<open>{content, isError?}\<close>.\<close>

record call_result =
  content :: "json list"
  isError :: "bool option"

datatype log_arg = LStr string | LErr js_error | LContent "json list"

text \<open>
  Everything the manager does to the outside world is recorded, in order, in a trace.
  A client handle is the number of the \<open>Client\<close> object, in order of construction.
\<close>

datatype event =
    LogInfo "log_arg list"
  | LogError "log_arg list"
  | NewClient nat
  | NewStdioTransport string "string list option" "(string \<times> string) list" string
  | NewSseTransport string "(string \<times> string) list option"
  | Handshake nat
  | ListTools nat
  | RemoteCall nat string "json option"
  | Close nat
  | Debounce int

text \<open>
  A \<open>connect()\<close> that holds the lock is parked at one of its two \<open>await\<close>s inside the
  \<open>try\<close> block: the handshake (line 137) or the tool listing (line 144).
\<close>

datatype connect_pc = AwaitHandshake nat | AwaitListTools nat

text \<open>
  The fields of \<open>MCPClient\<close>.  \<open>locked\<close> is \<open>locker.isLocked\<close>; \<open>pending_disconnect\<close> is the
  delay of the action pending in \<open>disconnectDebounce\<close>, if any; \<open>inflight\<close> is the parked
  \<open>connect()\<close> that holds the lock, if any; \<open>next_client\<close> numbers the \<open>Client\<close> objects.
\<close>

record mstate =
  name :: string
  serverConfig :: mcp_server_config
  autoDisconnectSeconds :: "int option"
  client :: "nat option"
  error :: "js_error option"
  isConnected :: bool
  locked :: bool
  toolInfo :: "mcp_tool_info list"
  tools :: "(string \<times> tool_wrapper) list"
  pending_disconnect :: "int option"
  inflight :: "connect_pc option"
  next_client :: nat
  trace :: "event list"

text \<open>
  What the outside world answers during one operation: the constants and the ambient
  process state the code reads, and the outcome of each external call.
\<close>

record world =
  sse_only :: bool
  process_env :: "(string \<times> string option) list"
  process_cwd :: string
  url_valid :: "string \<Rightarrow> bool"
  handshake_result :: "js_error option"
  list_tools_result :: "js_error + tool_descriptor list"
  wrapper_error :: "tool_descriptor \<Rightarrow> js_error option"
  call_tool_result :: "js_error + call_result option"
  close_result :: "js_error option"
  errorToString :: "js_error \<Rightarrow> string"
  json_stringify :: "json \<Rightarrow> string"

datatype status = Connected | Disconnected | Loading

text \<open>\<open>MCPServerInfo\<close>.\<close>

record mcp_server_info =
  info_name :: string
  info_config :: mcp_server_config
  info_status :: status
  info_error :: "js_error option"
  info_toolInfo :: "mcp_tool_info list"

section \<open>The manager\<close>

text \<open>The constructor: the field initialisers of the class.\<close>

definition createMCPClient :: "string \<Rightarrow> mcp_server_config \<Rightarrow> int option \<Rightarrow> mstate" where
  "createMCPClient n cfg secs =
     \<lparr>name = n, serverConfig = cfg, autoDisconnectSeconds = secs, client = None,
      error = None, isConnected = False, locked = False, toolInfo = [], tools = [],
      pending_disconnect = None, inflight = None, next_client = 0, trace = []\<rparr>"

definition emit :: "event \<Rightarrow> mstate \<Rightarrow> mstate" where
  "emit ev s = s\<lparr>trace := trace s @ [ev]\<rparr>"

definition getInfo :: "mstate \<Rightarrow> mcp_server_info" where
  "getInfo s =
     \<lparr>info_name = name s, info_config = serverConfig s,
      info_status = (if locked s then Loading
                     else if isConnected s then Connected else Disconnected),
      info_error = error s, info_toolInfo = toolInfo s\<rparr>"

subsection \<open>The idle-disconnect scheduler\<close>

text \<open>
  Modelled from the spec: \<open>createDebounce\<close> of \<open>lib/utils\<close> is not among the sources.
  Section 4.2: one deferred action; scheduling cancels the pending action before arming
  the new one, so at most one is pending.
\<close>

definition disconnectDebounce :: "int \<Rightarrow> mstate \<Rightarrow> mstate" where
  "disconnectDebounce ms s = emit (Debounce ms) (s\<lparr>pending_disconnect := Some ms\<rparr>)"

text \<open>
  \<open>if (this.options.autoDisconnectSeconds)\<close>: an absent delay and the delay 0 are both
  falsy.
\<close>

definition scheduleAutoDisconnect :: "mstate \<Rightarrow> mstate" where
  "scheduleAutoDisconnect s =
     (case autoDisconnectSeconds s of
        None \<Rightarrow> s
      | Some n \<Rightarrow> if n = 0 then s else disconnectDebounce (n * 1000) s)"

subsection \<open>The transport factory\<close>

text \<open>
  Modelled from the spec: \<open>isMaybeStdioConfig\<close> and \<open>isMaybeSseConfig\<close> of
  \<open>./is-mcp-config\<close> are not among the sources.  Section 4.3: the strand is selected by
  the shape of the configuration.
\<close>

definition isMaybeStdioConfig :: "mcp_server_config \<Rightarrow> bool" where
  "isMaybeStdioConfig cfg = (case cfg of StdioShaped _ \<Rightarrow> True | _ \<Rightarrow> False)"

definition isMaybeSseConfig :: "mcp_server_config \<Rightarrow> bool" where
  "isMaybeSseConfig cfg = (case cfg of SseShaped _ \<Rightarrow> True | _ \<Rightarrow> False)"

text \<open>
  \<open>MCPStdioConfigZodSchema.parse\<close>: the command is a string of length at least 1.
  \<open>MCPSseConfigZodSchema.parse\<close>: the url is a well-formed URL.
\<close>

definition MCPStdioConfigZodSchema_parse ::
  "mcp_server_config \<Rightarrow> js_error + mcp_stdio_config" where
  "MCPStdioConfigZodSchema_parse cfg =
     (case cfg of
        StdioShaped c \<Rightarrow>
          if command c = [] then Inl (JsError ''ZodError'' ''command'') else Inr c
      | _ \<Rightarrow> Inl (JsError ''ZodError'' ''command''))"

definition MCPSseConfigZodSchema_parse ::
  "world \<Rightarrow> mcp_server_config \<Rightarrow> js_error + mcp_sse_config" where
  "MCPSseConfigZodSchema_parse w cfg =
     (case cfg of
        SseShaped c \<Rightarrow>
          if url_valid w (url c) then Inr c else Inl (JsError ''ZodError'' ''url'')
      | _ \<Rightarrow> Inl (JsError ''ZodError'' ''url''))"

text \<open>
  An object is the association list of its own entries, in the order in which their keys
  were first written (JavaScript enumerates the keys that are array indices first; only
  lookups are stated below).  \<open>{...a, ...b}\<close> copies the entries of \<open>a\<close>, then those
  of \<open>b\<close>, into an empty object as own entries, a later entry replacing the value of its
  key.
\<close>

definition object_spread ::
  "(string \<times> 'v) list \<Rightarrow> (string \<times> 'v) list \<Rightarrow> (string \<times> 'v) list" where
  "object_spread a b = fold (\<lambda>(k, v). AList.update k v) (a @ b) []"

definition config_env_entries ::
  "(string \<times> string) list option \<Rightarrow> (string \<times> string option) list" where
  "config_env_entries e =
     (case e of None \<Rightarrow> [] | Some kvs \<Rightarrow> map (\<lambda>(k, v). (k, Some v)) kvs)"

text \<open>
  The assignment \<open>obj[key] = value\<close> to a plain object.  The key \<open>__proto__\<close> is the
  accessor of \<open>Object.prototype\<close>: its setter ignores a value that is not an object and
  makes an object the prototype of \<open>obj\<close>, and in both cases \<open>obj\<close> gets no entry.
  Every other key gets the value as an own entry.
\<close>

definition assign_property :: "string \<Rightarrow> 'v \<Rightarrow> (string \<times> 'v) list \<Rightarrow> (string \<times> 'v) list" where
  "assign_property k v obj = (if k = ''__proto__'' then obj else AList.update k v obj)"

text \<open>
  The \<open>reduce\<close> of lines 114 to 122: an entry whose value is undefined is skipped, every
  other entry is assigned to the accumulator (line 117).
\<close>

definition drop_undefined :: "(string \<times> string option) list \<Rightarrow> (string \<times> string) list" where
  "drop_undefined entries =
     fold (\<lambda>(k, v) acc. case v of None \<Rightarrow> acc | Some x \<Rightarrow> assign_property k x acc)
       entries []"

definition stdio_env :: "world \<Rightarrow> mcp_stdio_config \<Rightarrow> (string \<times> string) list" where
  "stdio_env w config =
     drop_undefined (object_spread (process_env w) (config_env_entries (env config)))"

text \<open>Lines 101 to 135: the transport is constructed, or the construction throws.\<close>

definition build_transport :: "world \<Rightarrow> mstate \<Rightarrow> (js_error + unit) \<times> mstate" where
  "build_transport w s =
     (if isMaybeStdioConfig (serverConfig s) then
        if sse_only w then (Inl (JsError ''Error'' ''Stdio transport is not supported''), s)
        else
          (case MCPStdioConfigZodSchema_parse (serverConfig s) of
             Inl e \<Rightarrow> (Inl e, s)
           | Inr config \<Rightarrow>
               (Inr (),
                emit (NewStdioTransport (command config) (args config)
                        (stdio_env w config) (process_cwd w)) s))
      else if isMaybeSseConfig (serverConfig s) then
        (case MCPSseConfigZodSchema_parse w (serverConfig s) of
           Inl e \<Rightarrow> (Inl e, s)
         | Inr config \<Rightarrow>
             if url_valid w (url config)
             then (Inr (), emit (NewSseTransport (url config) (headers config)) s)
             else (Inl (JsError ''TypeError'' ''Invalid URL''), s))
      else (Inl (JsError ''Error'' ''Invalid server config''), s))"

subsection \<open>The tool wrapper builder\<close>

definition toolInfo_of :: "tool_descriptor \<Rightarrow> mcp_tool_info" where
  "toolInfo_of t =
     \<lparr>ti_name = tool_name t, ti_description = tool_description t,
      ti_inputSchema = tool_inputSchema t\<rparr>"

text \<open>
  \<open>{..._tool.inputSchema, properties: _tool.inputSchema.properties ?? {},
  additionalProperties: false}\<close>.
\<close>

definition tool_parameters :: "(string \<times> json) list \<Rightarrow> (string \<times> json) list" where
  "tool_parameters schema =
     AList.update ''additionalProperties'' (JBool False)
       (AList.update ''properties''
          (case map_of schema ''properties'' of
             None \<Rightarrow> JObj [] | Some JNull \<Rightarrow> JObj [] | Some v \<Rightarrow> v)
          (object_spread schema []))"

definition build_wrapper :: "tool_descriptor \<Rightarrow> tool_wrapper" where
  "build_wrapper t =
     \<lparr>tw_parameters = tool_parameters (tool_inputSchema t),
      tw_description = tool_description t, tw_tool = tool_name t\<rparr>"

text \<open>
  The \<open>reduce\<close> of lines 155 to 172.  \<open>wrapper_error\<close> is the error that \<open>jsonSchema\<close> or
  \<open>tool\<close> of the AI SDK throws on a descriptor, if any; a throw leaves the \<open>reduce\<close>.
  The wrapper is assigned to the mapping under the name of the tool (line 163), so a tool
  named \<open>__proto__\<close> gets no entry.
\<close>

fun build_tools ::
  "world \<Rightarrow> tool_descriptor list \<Rightarrow> (string \<times> tool_wrapper) list \<Rightarrow>
   js_error + (string \<times> tool_wrapper) list" where
  "build_tools w [] prev = Inr prev"
| "build_tools w (t # ts) prev =
     (case wrapper_error w t of
        Some e \<Rightarrow> Inl e
      | None \<Rightarrow> build_tools w ts (assign_property (tool_name t) (build_wrapper t) prev))"

subsection \<open>connect\<close>

text \<open>
  The \<open>try\<close> block of \<open>connect()\<close> in three parts, cut at its two \<open>await\<close>s.
  \<open>connect_begin\<close> is lines 93 to 137, up to the handshake being issued.
\<close>

definition connect_begin :: "world \<Rightarrow> mstate \<Rightarrow> (js_error + nat) \<times> mstate" where
  "connect_begin w s =
     (let s1 = s\<lparr>locked := True\<rparr>;
          h = next_client s1;
          s2 = emit (NewClient h) (s1\<lparr>next_client := Suc h\<rparr>)
      in case build_transport w s2 of
           (Inl e, s3) \<Rightarrow> (Inl e, s3)
         | (Inr _, s3) \<Rightarrow>
             (Inr h, emit (Handshake h) (s3\<lparr>inflight := Some (AwaitHandshake h)\<rparr>)))"

text \<open>Lines 145 to 173, from the answer to \<open>listTools\<close> on.\<close>

definition connect_listed :: "world \<Rightarrow> nat \<Rightarrow> mstate \<Rightarrow> (js_error + unit) \<times> mstate" where
  "connect_listed w h s =
     (case list_tools_result w of
        Inl e \<Rightarrow> (Inl e, s)
      | Inr ts \<Rightarrow>
          (let s1 = s\<lparr>toolInfo := map toolInfo_of ts\<rparr>
           in case build_tools w ts [] of
                Inl e \<Rightarrow> (Inl e, s1)
              | Inr m \<Rightarrow> (Inr (), scheduleAutoDisconnect (s1\<lparr>tools := m\<rparr>))))"

text \<open>Lines 138 to 144: the state in which \<open>connect()\<close> awaits the tool listing.\<close>

definition connect_connected :: "nat \<Rightarrow> mstate \<Rightarrow> mstate" where
  "connect_connected h s =
     (let s1 = emit (LogInfo [LStr ''Connected to MCP server'']) s;
          s2 = s1\<lparr>isConnected := True, error := None, client := Some h\<rparr>
      in emit (ListTools h) (s2\<lparr>inflight := Some (AwaitListTools h)\<rparr>))"

text \<open>From the answer to the handshake on.\<close>

definition connect_shaken :: "world \<Rightarrow> nat \<Rightarrow> mstate \<Rightarrow> (js_error + unit) \<times> mstate" where
  "connect_shaken w h s =
     (case handshake_result w of
        Some e \<Rightarrow> (Inl e, s)
      | None \<Rightarrow> connect_listed w h (connect_connected h s))"

definition connect_try :: "world \<Rightarrow> mstate \<Rightarrow> (js_error + unit) \<times> mstate" where
  "connect_try w s =
     (case connect_begin w s of
        (Inl e, s1) \<Rightarrow> (Inl e, s1)
      | (Inr h, s1) \<Rightarrow> connect_shaken w h s1)"

text \<open>The \<open>catch\<close> block, lines 174 to 178.\<close>

definition connect_catch :: "js_error \<Rightarrow> mstate \<Rightarrow> mstate" where
  "connect_catch e s = (emit (LogError [LErr e]) s)\<lparr>isConnected := False, error := Some e\<rparr>"

text \<open>
  The end of \<open>connect()\<close>: the \<open>catch\<close> block if the \<open>try\<close> block threw, then lines 180
  and 181.
\<close>

definition connect_exit :: "(js_error + unit) \<times> mstate \<Rightarrow> (js_error + nat option) \<times> mstate" where
  "connect_exit c =
     (case c of (r, s) \<Rightarrow>
        (let s1 = (case r of Inl e \<Rightarrow> connect_catch e s | Inr _ \<Rightarrow> s);
             s2 = s1\<lparr>locked := False, inflight := None\<rparr>
         in (Inr (client s2), s2)))"

text \<open>A parked \<open>connect()\<close> runs from its \<open>await\<close> to its end.\<close>

definition connect_resume :: "world \<Rightarrow> connect_pc \<Rightarrow> mstate \<Rightarrow> (js_error + nat option) \<times> mstate" where
  "connect_resume w pc s =
     connect_exit (case pc of
                     AwaitHandshake h \<Rightarrow> connect_shaken w h s
                   | AwaitListTools h \<Rightarrow> connect_listed w h s)"

text \<open>
  Modelled from the spec: the class \<open>Locker\<close> of \<open>lib/utils\<close> is not among the sources.
  Section 4.1: \<open>wait()\<close> suspends the calling operation until the lock is released,
  without acquiring it.  The lock is released by the \<open>connect()\<close> that holds it, when that
  one has run to its end; a lock that nobody holds is never released, and the caller
  never resumes (\<open>None\<close>).
\<close>

definition locker_wait :: "world \<Rightarrow> mstate \<Rightarrow> mstate option" where
  "locker_wait w s =
     (if \<not> locked s then Some s
      else case inflight s of
             None \<Rightarrow> None
           | Some pc \<Rightarrow> Some (snd (connect_resume w pc s)))"

definition connect :: "world \<Rightarrow> mstate \<Rightarrow> ((js_error + nat option) \<times> mstate) option" where
  "connect w s =
     (if locked s then
        (case locker_wait w s of
           None \<Rightarrow> None
         | Some s1 \<Rightarrow> Some (Inr (client s1), s1))
      else if isConnected s then Some (Inr (client s), s)
      else Some (connect_exit (connect_try w s)))"

subsection \<open>disconnect\<close>

text \<open>\<open>promise.catch(handler)\<close>: a rejection is handed to the handler.\<close>

definition promise_catch ::
  "(js_error \<Rightarrow> mstate \<Rightarrow> (js_error + unit) \<times> mstate) \<Rightarrow>
   (js_error + unit) \<times> mstate \<Rightarrow> (js_error + unit) \<times> mstate" where
  "promise_catch handler c =
     (case c of (Inl e, s) \<Rightarrow> handler e s | (Inr v, s) \<Rightarrow> (Inr v, s))"

definition client_close :: "world \<Rightarrow> nat \<Rightarrow> mstate \<Rightarrow> (js_error + unit) \<times> mstate" where
  "client_close w h s =
     (case close_result w of
        Some e \<Rightarrow> (Inl e, emit (Close h) s)
      | None \<Rightarrow> (Inr (), emit (Close h) s))"

definition disconnect :: "world \<Rightarrow> mstate \<Rightarrow> ((js_error + unit) \<times> mstate) option" where
  "disconnect w s =
     (case locker_wait w (emit (LogInfo [LStr ''Disconnecting from MCP server'']) s) of
        None \<Rightarrow> None
      | Some s1 \<Rightarrow>
          (let s2 = s1\<lparr>isConnected := False\<rparr>;
               c = client s2;
               s3 = s2\<lparr>client := None\<rparr>
           in Some (case c of
                      None \<Rightarrow> (Inr (), s3)
                    | Some h \<Rightarrow>
                        promise_catch (\<lambda>e s'. (Inr (), emit (LogError [LErr e]) s'))
                          (client_close w h s3))))"

subsection \<open>callTool\<close>

text \<open>
  The combinators of the ts-safe chain that \<open>callTool\<close> is written with.  A chain carries
  a value or a failure (\<open>Inl\<close>).  \<open>map\<close> replaces the value by the result of its function,
  and fails when that throws or rejects; \<open>ifOk\<close> runs an effect on a value and keeps the
  value, and fails when the effect throws; \<open>watch\<close> observes and changes nothing;
  \<open>ifFail\<close> replaces a failure by the value of its handler; \<open>unwrap\<close> returns the value
  or throws the failure.
\<close>

definition safe_map ::
  "('a \<Rightarrow> mstate \<Rightarrow> ((js_error + 'b) \<times> mstate) option) \<Rightarrow>
   (js_error + 'a) \<times> mstate \<Rightarrow> ((js_error + 'b) \<times> mstate) option" where
  "safe_map f c = (case c of (Inl e, s) \<Rightarrow> Some (Inl e, s) | (Inr v, s) \<Rightarrow> f v s)"

definition safe_ifOk ::
  "('a \<Rightarrow> mstate \<Rightarrow> (js_error + 'b) \<times> mstate) \<Rightarrow>
   (js_error + 'a) \<times> mstate \<Rightarrow> (js_error + 'a) \<times> mstate" where
  "safe_ifOk f c =
     (case c of
        (Inl e, s) \<Rightarrow> (Inl e, s)
      | (Inr v, s) \<Rightarrow>
          (case f v s of (Inl e, s1) \<Rightarrow> (Inl e, s1) | (Inr _, s1) \<Rightarrow> (Inr v, s1)))"

definition safe_watch ::
  "(js_error + 'a \<Rightarrow> mstate \<Rightarrow> mstate) \<Rightarrow>
   (js_error + 'a) \<times> mstate \<Rightarrow> (js_error + 'a) \<times> mstate" where
  "safe_watch f c = (case c of (r, s) \<Rightarrow> (r, f r s))"

definition safe_ifFail ::
  "(js_error \<Rightarrow> mstate \<Rightarrow> (js_error + 'a) \<times> mstate) \<Rightarrow>
   (js_error + 'a) \<times> mstate \<Rightarrow> (js_error + 'a) \<times> mstate" where
  "safe_ifFail f c = (case c of (Inl e, s) \<Rightarrow> f e s | (Inr v, s) \<Rightarrow> (Inr v, s))"

definition safe_unwrap :: "(js_error + 'a) \<times> mstate \<Rightarrow> (js_error + 'a) \<times> mstate" where
  "safe_unwrap c = (case c of (Inl e, s) \<Rightarrow> (Inl e, s) | (Inr v, s) \<Rightarrow> (Inr v, s))"

text \<open>
  Modelled from the spec: \<open>isNull\<close> of \<open>lib/utils\<close> is not among the sources.  Section 7:
  an unexpectedly empty or null response.
\<close>

definition isNull :: "'a option \<Rightarrow> bool" where
  "isNull v = (v = None)"

text \<open>\<open>client.callTool\<close> of the SDK: the request is sent, the world answers.\<close>

definition client_callTool ::
  "world \<Rightarrow> nat \<Rightarrow> string \<Rightarrow> json option \<Rightarrow> mstate \<Rightarrow>
   (js_error + call_result option) \<times> mstate" where
  "client_callTool w h toolName input s =
     (call_tool_result w, emit (RemoteCall h toolName input) s)"

text \<open>Lines 193 to 199, the function given to \<open>map\<close>.\<close>

definition callTool_invoke ::
  "world \<Rightarrow> string \<Rightarrow> json option \<Rightarrow> mstate \<Rightarrow>
   ((js_error + call_result option) \<times> mstate) option" where
  "callTool_invoke w toolName input s =
     (case connect w s of
        None \<Rightarrow> None
      | Some (Inl e, s1) \<Rightarrow> Some (Inl e, s1)
      | Some (Inr None, s1) \<Rightarrow> Some (Inr None, s1)
      | Some (Inr (Some h), s1) \<Rightarrow> Some (client_callTool w h toolName input s1))"

text \<open>Lines 214 to 229, the value that \<open>ifFail\<close> puts in the place of a failure.\<close>

definition tool_call_failed :: "world \<Rightarrow> js_error \<Rightarrow> call_result" where
  "tool_call_failed w e =
     \<lparr>content =
        [JObj [(''type'', JStr ''text''),
               (''text'',
                JStr (json_stringify w
                   (JObj [(''error'',
                           JObj [(''message'', JStr (errorToString w e)),
                                 (''name'', JStr (err_name e))])])))]],
      isError = Some True\<rparr>"

text \<open>Lines 207 to 213, the observer given to \<open>watch\<close>.\<close>

definition callTool_watch :: "string \<Rightarrow> js_error + call_result option \<Rightarrow> mstate \<Rightarrow> mstate" where
  "callTool_watch toolName st s =
     (case st of
        Inl e \<Rightarrow> emit (LogError [LStr ''Tool call failed'', LStr toolName, LErr e]) s
      | Inr None \<Rightarrow> s
      | Inr (Some r) \<Rightarrow>
          if isError r = Some True
          then emit (LogError [LStr ''Tool call failed'', LStr toolName, LContent (content r)]) s
          else s)"

definition callTool ::
  "world \<Rightarrow> string \<Rightarrow> json option \<Rightarrow> mstate \<Rightarrow>
   ((js_error + call_result option) \<times> mstate) option" where
  "callTool w toolName input s =
     map_option
       (\<lambda>c. safe_unwrap
              (safe_ifFail (\<lambda>e s'. (Inr (Some (tool_call_failed w e)), s'))
                 (safe_watch (callTool_watch toolName)
                    (safe_ifOk (\<lambda>_ s'. (Inr (), scheduleAutoDisconnect s'))
                       (safe_ifOk
                          (\<lambda>v s'. if isNull v
                                   then (Inl (JsError ''Error'' ''Tool call failed with null''), s')
                                   else (Inr v, s'))
                          c)))))
       (safe_map (\<lambda>_. callTool_invoke w toolName input)
          (Inr (), emit (LogInfo [LStr ''tool call'', LStr toolName]) s))"

subsection \<open>The execute closure of a tool wrapper\<close>

record abort_signal =
  aborted :: bool
  reason :: js_error

record tool_execution_options =
  abortSignal :: "abort_signal option"

text \<open>\<open>options?.abortSignal?.throwIfAborted()\<close>: the thrown reason, if it throws.\<close>

definition throwIfAborted :: "tool_execution_options option \<Rightarrow> js_error option" where
  "throwIfAborted options =
     (case options of
        None \<Rightarrow> None
      | Some opts \<Rightarrow>
          (case abortSignal opts of
             None \<Rightarrow> None
           | Some sg \<Rightarrow> if aborted sg then Some (reason sg) else None))"

definition execute ::
  "world \<Rightarrow> tool_wrapper \<Rightarrow> json \<Rightarrow> tool_execution_options option \<Rightarrow> mstate \<Rightarrow>
   ((js_error + call_result option) \<times> mstate) option" where
  "execute w tw params options s =
     (case throwIfAborted options of
        Some e \<Rightarrow> Some (Inl e, s)
      | None \<Rightarrow> callTool w (tw_tool tw) (Some params) s)"

subsection \<open>Sequences of operations\<close>

datatype op = OpConnect | OpDisconnect | OpCallTool string "json option"

definition run_op :: "world \<Rightarrow> op \<Rightarrow> mstate \<Rightarrow> mstate option" where
  "run_op w c s =
     (case c of
        OpConnect \<Rightarrow> map_option snd (connect w s)
      | OpDisconnect \<Rightarrow> map_option snd (disconnect w s)
      | OpCallTool toolName input \<Rightarrow> map_option snd (callTool w toolName input s))"

text \<open>A sequence of operations, each with the answers of the world during it.\<close>

fun run_ops :: "(world \<times> op) list \<Rightarrow> mstate \<Rightarrow> mstate option" where
  "run_ops [] s = Some s"
| "run_ops ((w, c) # rest) s =
     (case run_op w c s of None \<Rightarrow> None | Some s' \<Rightarrow> run_ops rest s')"

text \<open>The events that construct a transport or start the handshake that spawns it.\<close>

fun is_transport_event :: "event \<Rightarrow> bool" where
  "is_transport_event (NewStdioTransport _ _ _ _) = True"
| "is_transport_event (NewSseTransport _ _) = True"
| "is_transport_event (Handshake _) = True"
| "is_transport_event _ = False"

subsection \<open>Example managers and worlds\<close>

text \<open>
  A server that answers everything, with one tool; a manager for a network server with an
  idle delay of 60 seconds; a manager for a local server.
\<close>

definition echo_tool :: tool_descriptor where
  "echo_tool =
     \<lparr>tool_name = ''echo'', tool_description = Some ''Echo the text'',
      tool_inputSchema = [(''type'', JStr ''object'')]\<rparr>"

definition ok_result :: call_result where
  "ok_result = \<lparr>content = [JObj [(''type'', JStr ''text''), (''text'', JStr ''hi'')]],
                isError = None\<rparr>"

definition ok_world :: world where
  "ok_world =
     \<lparr>sse_only = False,
      process_env = [(''PATH'', Some ''/usr/bin''), (''HOME'', Some ''/root''), (''TMP'', None)],
      process_cwd = ''/srv/app'',
      url_valid = (\<lambda>u. u \<noteq> []),
      handshake_result = None,
      list_tools_result = Inr [echo_tool],
      wrapper_error = (\<lambda>_. None),
      call_tool_result = Inr (Some ok_result),
      close_result = None,
      errorToString = err_message,
      json_stringify = (\<lambda>_. ''{}'')\<rparr>"

definition sse_manager :: mstate where
  "sse_manager =
     createMCPClient ''remote'' (SseShaped \<lparr>url = ''http://localhost:3000/sse'', headers = None\<rparr>)
       (Some 60)"

definition stdio_manager :: mstate where
  "stdio_manager =
     createMCPClient ''local''
       (StdioShaped \<lparr>command = ''npx'', args = Some [''@playwright/mcp@latest''],
                     env = Some [(''HOME'', ''/tmp/pw'')]\<rparr>)
       None"

definition boom :: js_error where
  "boom = JsError ''McpError'' ''Request timed out''"

text \<open>
  A server whose tool listing times out, a server whose tool call times out, and the
  manager for the network server after a \<open>connect()\<close> to the server that answers
  everything.
\<close>

definition listing_fails :: world where
  "listing_fails = ok_world\<lparr>list_tools_result := Inl boom\<rparr>"

definition call_fails :: world where
  "call_fails = ok_world\<lparr>call_tool_result := Inl boom\<rparr>"

definition connected_manager :: mstate where
  "connected_manager =
     (case connect ok_world sse_manager of None \<Rightarrow> sse_manager | Some (_, s') \<Rightarrow> s')"

text \<open>The same manager with the delay 0, after the same \<open>connect()\<close>.\<close>

definition zero_delay_manager :: mstate where
  "zero_delay_manager =
     (case connect ok_world (sse_manager\<lparr>autoDisconnectSeconds := Some 0\<rparr>) of
        None \<Rightarrow> sse_manager
      | Some (_, s') \<Rightarrow> s')"

text \<open>
  A manager for a local server whose configured environment has an entry named
  \<open>__proto__\<close>, as \<open>JSON.parse\<close> makes it from \<open>{"__proto__": "/x"}\<close>.
\<close>

definition proto_manager :: mstate where
  "proto_manager =
     createMCPClient ''local''
       (StdioShaped \<lparr>command = ''npx'', args = None,
                     env = Some [(''__proto__'', ''/x''), (''HOME'', ''/tmp/pw'')]\<rparr>)
       None"

text \<open>A world in which the AI SDK throws on every tool descriptor.\<close>

definition wrapper_fails :: world where
  "wrapper_fails = ok_world\<lparr>wrapper_error := (\<lambda>_. Some boom)\<rparr>"

section \<open>Properties\<close>

subsection \<open>Unfolding the model\<close>

lemmas connect_defs =
  connect_def connect_exit_def connect_try_def connect_begin_def connect_shaken_def
  connect_listed_def connect_connected_def connect_catch_def connect_resume_def
  locker_wait_def build_transport_def emit_def scheduleAutoDisconnect_def
  disconnectDebounce_def isMaybeStdioConfig_def isMaybeSseConfig_def
  MCPStdioConfigZodSchema_parse_def MCPSseConfigZodSchema_parse_def assign_property_def

lemmas example_defs =
  ok_world_def sse_manager_def stdio_manager_def createMCPClient_def echo_tool_def
  ok_result_def boom_def

subsection \<open>Facts about connect\<close>

lemma build_transport_result:
  "serverConfig s' = serverConfig s \<Longrightarrow> fst (build_transport w s') = fst (build_transport w s)"
  by (simp add: build_transport_def split: sum.splits)

lemma build_transport_frame:
  "build_transport w s = (r, s1) \<Longrightarrow>
     s1 = s \<or> (\<exists>ev. s1 = emit ev s \<and> (\<forall>h. ev \<noteq> ListTools h))"
  by (auto simp: build_transport_def split: if_splits sum.splits)




lemma connect_exit_shape:
  "\<exists>s'. connect_exit c = (Inr (client s'), s') \<and> \<not> locked s' \<and> inflight s' = None"
  by (cases c) (simp add: connect_exit_def Let_def)


lemma locker_wait_total:
  assumes "locked s \<longrightarrow> inflight s \<noteq> None"
  shows "\<exists>s1. locker_wait w s = Some s1 \<and> \<not> locked s1"
proof (cases "locked s")
  case False
  then show ?thesis by (simp add: locker_wait_def)
next
  case True
  then obtain pc where pc: "inflight s = Some pc" using assms by auto
  obtain s' where "connect_resume w pc s = (Inr (client s'), s')" "\<not> locked s'"
    using connect_exit_shape unfolding connect_resume_def by blast
  then show ?thesis using True pc by (simp add: locker_wait_def)
qed

lemma connect_total:
  assumes "locked s \<longrightarrow> inflight s \<noteq> None"
  shows "\<exists>s'. connect w s = Some (Inr (client s'), s') \<and> \<not> locked s'"
proof (cases "locked s")
  case True
  then show ?thesis using locker_wait_total [OF assms, of w] by (auto simp: connect_def)
next
  case False
  then show ?thesis using connect_exit_shape [of "connect_try w s"]
    by (auto simp: connect_def)
qed

subsection \<open>Facts about the subprocess environment\<close>

lemma fold_update_lookup:
  "distinct (map fst xs) \<Longrightarrow>
   map_of (fold (\<lambda>(k, v). AList.update k v) xs acc) k' =
     (case map_of xs k' of Some v \<Rightarrow> Some v | None \<Rightarrow> map_of acc k')"
proof (induction xs arbitrary: acc)
  case Nil
  then show ?case by simp
next
  case (Cons a xs)
  obtain k v where a: "a = (k, v)" by (cases a)
  from Cons.prems a have k: "map_of xs k = None" and d: "distinct (map fst xs)"
    by (auto simp: map_of_eq_None_iff)
  show ?case
    using Cons.IH [OF d, of "AList.update k v acc"] a k
    by (auto simp: update_conv' split: option.splits)
qed

lemma fold_update_distinct:
  "distinct (map fst acc) \<Longrightarrow> distinct (map fst (fold (\<lambda>(k, v). AList.update k v) xs acc))"
  by (induction xs arbitrary: acc) (auto simp: distinct_update)

lemma object_spread_distinct: "distinct (map fst (object_spread a b))"
  by (simp add: object_spread_def fold_update_distinct)

lemma fold_skip_undefined:
  "distinct (map fst es) \<Longrightarrow>
   map_of (fold (\<lambda>(k, v) acc. case v of None \<Rightarrow> acc | Some x \<Rightarrow> assign_property k x acc)
             es acc) k'
     = (case map_of es k' of
          Some (Some x) \<Rightarrow> if k' = ''__proto__'' then map_of acc k' else Some x
        | Some None \<Rightarrow> map_of acc k'
        | None \<Rightarrow> map_of acc k')"
proof (induction es arbitrary: acc)
  case Nil
  then show ?case by simp
next
  case (Cons a es)
  obtain k v where a: "a = (k, v)" by (cases a)
  from Cons.prems a have k: "map_of es k = None" and d: "distinct (map fst es)"
    by (auto simp: map_of_eq_None_iff)
  show ?case
  proof (cases v)
    case None
    then show ?thesis using Cons.IH [OF d, of acc] a k by simp
  next
    case (Some x)
    then show ?thesis using Cons.IH [OF d, of "assign_property k x acc"] a k
      by (auto simp: assign_property_def update_conv' split: option.splits)
  qed
qed

lemma drop_undefined_lookup:
  "distinct (map fst es) \<Longrightarrow>
   map_of (drop_undefined es) k =
     (if k = ''__proto__'' then None
      else case map_of es k of Some (Some x) \<Rightarrow> Some x | _ \<Rightarrow> None)"
  by (simp add: drop_undefined_def fold_skip_undefined split: option.splits)

lemma config_env_entries_lookup:
  "map_of (config_env_entries (Some kvs)) k = map_option Some (map_of kvs k)"
  by (simp add: config_env_entries_def map_of_map)

lemma config_env_entries_keys:
  "map fst (config_env_entries (Some kvs)) = map fst kvs"
  by (simp add: config_env_entries_def case_prod_unfold)

lemma object_spread_lookup:
  assumes "distinct (map fst a)" "distinct (map fst b)"
  shows "map_of (object_spread a b) k =
     (case map_of b k of Some v \<Rightarrow> Some v | None \<Rightarrow> map_of a k)"
proof -
  have "map_of (fold (\<lambda>(k, v). AList.update k v) b (fold (\<lambda>(k, v). AList.update k v) a [])) k
      = (case map_of b k of Some v \<Rightarrow> Some v | None \<Rightarrow> map_of a k)"
    using assms by (simp add: fold_update_lookup split: option.splits)
  then show ?thesis by (simp add: object_spread_def)
qed

lemma stdio_env_lookup:
  assumes "distinct (map fst (process_env w))"
    and "\<forall>kvs. env c = Some kvs \<longrightarrow> distinct (map fst kvs)"
  shows "map_of (stdio_env w c) k =
     (if k = ''__proto__'' then None
      else case (case env c of None \<Rightarrow> None | Some kvs \<Rightarrow> map_of kvs k) of
             Some v \<Rightarrow> Some v
           | None \<Rightarrow> (case map_of (process_env w) k of Some (Some v) \<Rightarrow> Some v | _ \<Rightarrow> None))"
proof (cases "env c")
  case None
  then show ?thesis using assms(1)
    by (simp add: stdio_env_def drop_undefined_lookup object_spread_distinct
        object_spread_lookup config_env_entries_def)
next
  case (Some kvs)
  then have "distinct (map fst (config_env_entries (env c)))"
    using assms(2) by (simp add: config_env_entries_keys)
  then show ?thesis using assms(1) Some
    by (simp add: stdio_env_def drop_undefined_lookup object_spread_distinct
        object_spread_lookup config_env_entries_lookup
        split: option.splits)
qed

subsection \<open>Facts about disconnect\<close>

lemma disconnect_after_wait:
  assumes "locker_wait w (emit (LogInfo [LStr ''Disconnecting from MCP server'']) s) = Some s1"
  shows "disconnect w s =
     Some (Inr (), s1\<lparr>isConnected := False, client := None,
                      trace := trace s1 @
                        (case client s1 of
                           None \<Rightarrow> []
                         | Some h \<Rightarrow>
                             Close h # (case close_result w of
                                          None \<Rightarrow> [] | Some e \<Rightarrow> [LogError [LErr e]]))\<rparr>)"
  using assms
  by (auto simp: disconnect_def Let_def promise_catch_def client_close_def emit_def
      split: option.splits)

lemma disconnect_unheld_lock: "locked s \<Longrightarrow> inflight s = None \<Longrightarrow> disconnect w s = None"
  by (simp add: disconnect_def locker_wait_def emit_def)

subsection \<open>What connect leaves unchanged\<close>

lemma build_tools_ok:
  "\<forall>t. wrapper_error w t = None \<Longrightarrow> \<exists>m. build_tools w ts prev = Inr m"
  by (induction ts arbitrary: prev) auto

lemma connect_listed_frame:
  "connect_listed w h s = (r, s1) \<Longrightarrow>
     autoDisconnectSeconds s1 = autoDisconnectSeconds s \<and> set (trace s) \<subseteq> set (trace s1)
     \<and> isConnected s1 = isConnected s \<and> client s1 = client s"
  by (auto simp: connect_listed_def scheduleAutoDisconnect_def disconnectDebounce_def emit_def
      Let_def split: sum.splits option.splits if_splits)

lemma connect_shaken_frame:
  "connect_shaken w h s = (r, s1) \<Longrightarrow>
     autoDisconnectSeconds s1 = autoDisconnectSeconds s \<and> set (trace s) \<subseteq> set (trace s1)
     \<and> (toolInfo s1 = toolInfo s \<or> ListTools h \<in> set (trace s1))"
proof (cases "handshake_result w")
  case None
  assume a: "connect_shaken w h s = (r, s1)"
  from a None have l: "connect_listed w h (connect_connected h s) = (r, s1)"
    by (simp add: connect_shaken_def)
  have "ListTools h \<in> set (trace (connect_connected h s))"
    "set (trace s) \<subseteq> set (trace (connect_connected h s))"
    "autoDisconnectSeconds (connect_connected h s) = autoDisconnectSeconds s"
    by (auto simp: connect_connected_def emit_def Let_def)
  with connect_listed_frame [OF l] show ?thesis by auto
next
  case (Some e)
  assume "connect_shaken w h s = (r, s1)"
  with Some show ?thesis by (auto simp: connect_shaken_def)
qed

lemma connect_begin_frame:
  "connect_begin w s = (r, s1) \<Longrightarrow>
     autoDisconnectSeconds s1 = autoDisconnectSeconds s \<and> set (trace s) \<subseteq> set (trace s1)
     \<and> toolInfo s1 = toolInfo s \<and> isConnected s1 = isConnected s"
  by (auto simp: connect_begin_def build_transport_def emit_def Let_def
      split: sum.splits if_splits prod.splits)

lemma connect_try_frame:
  assumes "connect_try w s = (r, s1)"
  shows "autoDisconnectSeconds s1 = autoDisconnectSeconds s \<and> set (trace s) \<subseteq> set (trace s1)
     \<and> (toolInfo s1 = toolInfo s \<or> (\<exists>h. ListTools h \<in> set (trace s1)))"
proof (cases "connect_begin w s")
  case (Pair rb sb)
  note b = connect_begin_frame [OF Pair]
  show ?thesis
  proof (cases rb)
    case (Inl e)
    then show ?thesis using assms Pair b by (auto simp: connect_try_def)
  next
    case (Inr h)
    then have "connect_shaken w h sb = (r, s1)" using assms Pair by (simp add: connect_try_def)
    from connect_shaken_frame [OF this] b show ?thesis by auto
  qed
qed

lemma connect_exit_frame:
  "connect_exit (r, s) = (r', s') \<Longrightarrow>
     autoDisconnectSeconds s' = autoDisconnectSeconds s \<and> set (trace s) \<subseteq> set (trace s')
     \<and> toolInfo s' = toolInfo s"
  by (auto simp: connect_exit_def connect_catch_def emit_def Let_def split: sum.splits)

lemma connect_idle_frame:
  assumes "\<not> locked s" and "connect w s = Some (r, s')"
  shows "autoDisconnectSeconds s' = autoDisconnectSeconds s \<and> set (trace s) \<subseteq> set (trace s')
     \<and> (toolInfo s' = toolInfo s \<or> (\<exists>h. ListTools h \<in> set (trace s')))"
proof (cases "isConnected s")
  case True
  then show ?thesis using assms by (auto simp: connect_def)
next
  case False
  obtain rt st where t: "connect_try w s = (rt, st)" by (cases "connect_try w s")
  with assms False have "connect_exit (rt, st) = (r, s')" by (simp add: connect_def)
  from connect_exit_frame [OF this] connect_try_frame [OF t] show ?thesis by auto
qed

lemma connect_options:
  assumes "connect w s = Some (r, s')"
  shows "autoDisconnectSeconds s' = autoDisconnectSeconds s"
proof (cases "locked s")
  case False
  then show ?thesis using connect_idle_frame [OF False assms] by simp
next
  case True
  then obtain pc where pc: "inflight s = Some pc" and s': "s' = snd (connect_resume w pc s)"
    using assms by (auto simp: connect_def locker_wait_def split: option.splits)
  obtain rt st where t: "(case pc of AwaitHandshake h \<Rightarrow> connect_shaken w h s
                           | AwaitListTools h \<Rightarrow> connect_listed w h s) = (rt, st)"
    by (cases "case pc of AwaitHandshake h \<Rightarrow> connect_shaken w h s
                           | AwaitListTools h \<Rightarrow> connect_listed w h s")
  have "autoDisconnectSeconds st = autoDisconnectSeconds s"
    using t connect_shaken_frame connect_listed_frame by (cases pc) auto
  moreover obtain r2 where "connect_exit (rt, st) = (r2, s')"
    using s' t by (cases "connect_exit (rt, st)") (simp add: connect_resume_def)
  ultimately show ?thesis using connect_exit_frame by metis
qed

lemma callTool_after_connect:
  assumes "connect w (emit (LogInfo [LStr ''tool call'', LStr n]) s) = Some (Inr r, s1)"
  shows "callTool w n i s =
     Some (case r of
             None \<Rightarrow>
               (Inr (Some (tool_call_failed w (JsError ''Error'' ''Tool call failed with null''))),
                emit (LogError [LStr ''Tool call failed'', LStr n,
                                LErr (JsError ''Error'' ''Tool call failed with null'')]) s1)
           | Some h \<Rightarrow>
               (case call_tool_result w of
                  Inl e \<Rightarrow>
                    (Inr (Some (tool_call_failed w e)),
                     emit (LogError [LStr ''Tool call failed'', LStr n, LErr e])
                       (emit (RemoteCall h n i) s1))
                | Inr None \<Rightarrow>
                    (Inr (Some (tool_call_failed w
                                  (JsError ''Error'' ''Tool call failed with null''))),
                     emit (LogError [LStr ''Tool call failed'', LStr n,
                                     LErr (JsError ''Error'' ''Tool call failed with null'')])
                       (emit (RemoteCall h n i) s1))
                | Inr (Some v) \<Rightarrow>
                    (Inr (Some v),
                     callTool_watch n (Inr (Some v))
                       (scheduleAutoDisconnect (emit (RemoteCall h n i) s1)))))"
  using assms
  by (simp add: callTool_def callTool_invoke_def safe_map_def safe_ifOk_def safe_watch_def
      safe_ifFail_def safe_unwrap_def isNull_def client_callTool_def callTool_watch_def
      split: option.splits sum.splits)

lemma connected_manager_eq:
  "connected_manager =
     sse_manager\<lparr>client := Some 0, isConnected := True,
                  toolInfo := [toolInfo_of echo_tool],
                  tools := [(''echo'', build_wrapper echo_tool)],
                  pending_disconnect := Some 60000, next_client := 1,
                  trace := [NewClient 0, NewSseTransport ''http://localhost:3000/sse'' None,
                            Handshake 0, LogInfo [LStr ''Connected to MCP server''],
                            ListTools 0, Debounce 60000]\<rparr>"
  by (simp add: connected_manager_def connect_defs ok_world_def sse_manager_def
      createMCPClient_def echo_tool_def Let_def)

subsection \<open>Facts about the tool information\<close>

lemma build_tools_no_error:
  "\<forall>t. wrapper_error w t = None \<Longrightarrow> build_tools w ts prev \<noteq> Inl e"
  using build_tools_ok [of w ts prev] by auto

lemma connect_listed_flag:
  "\<forall>t. wrapper_error w t = None \<Longrightarrow> connect_listed w h s = (r, s1) \<Longrightarrow>
     (r = Inr () \<and> isConnected s1 = isConnected s) \<or> (toolInfo s1 = toolInfo s \<and> (\<exists>e. r = Inl e))"
  by (auto simp: connect_listed_def scheduleAutoDisconnect_def disconnectDebounce_def emit_def
      Let_def build_tools_no_error split: sum.splits option.splits if_splits)

lemma connect_try_flag:
  assumes "\<forall>t. wrapper_error w t = None" and "connect_try w s = (r, s1)"
  shows "(r = Inr () \<and> isConnected s1) \<or> (toolInfo s1 = toolInfo s \<and> (\<exists>e. r = Inl e))"
proof (cases "connect_begin w s")
  case (Pair rb sb)
  note b = connect_begin_frame [OF Pair]
  show ?thesis
  proof (cases rb)
    case (Inl e)
    then show ?thesis using assms Pair b by (auto simp: connect_try_def)
  next
    case (Inr h)
    show ?thesis
    proof (cases "handshake_result w")
      case (Some e)
      then show ?thesis using assms Pair b Inr by (auto simp: connect_try_def connect_shaken_def)
    next
      case None
      then have l: "connect_listed w h (connect_connected h sb) = (r, s1)"
        using assms Pair Inr by (simp add: connect_try_def connect_shaken_def)
      have "isConnected (connect_connected h sb)" "toolInfo (connect_connected h sb) = toolInfo sb"
        by (simp_all add: connect_connected_def emit_def Let_def)
      with connect_listed_flag [OF assms(1) l] b show ?thesis by auto
    qed
  qed
qed

lemma connect_idle_flag:
  assumes "\<not> locked s" and "\<forall>t. wrapper_error w t = None"
    and "toolInfo s \<noteq> [] \<longrightarrow> isConnected s" and "connect w s = Some (r, s')"
  shows "toolInfo s' \<noteq> [] \<longrightarrow> isConnected s'"
proof (cases "isConnected s")
  case True
  then show ?thesis using assms by (auto simp: connect_def)
next
  case False
  obtain rt st where t: "connect_try w s = (rt, st)" by (cases "connect_try w s")
  with assms False have x: "connect_exit (rt, st) = (r, s')" by (simp add: connect_def)
  from connect_try_flag [OF assms(2) t] show ?thesis
  proof
    assume "rt = Inr () \<and> isConnected st"
    then show ?thesis using x by (auto simp: connect_exit_def Let_def)
  next
    assume "toolInfo st = toolInfo s \<and> (\<exists>e. rt = Inl e)"
    then show ?thesis using x connect_exit_frame [OF x] assms(3) False by auto
  qed
qed

lemma disconnect_idle:
  assumes "\<not> locked s"
  shows "\<exists>s'. disconnect w s = Some (Inr (), s') \<and> toolInfo s' = toolInfo s
     \<and> \<not> isConnected s' \<and> \<not> locked s' \<and> client s' = None \<and> set (trace s) \<subseteq> set (trace s')"
proof -
  have "locker_wait w (emit (LogInfo [LStr ''Disconnecting from MCP server'']) s)
      = Some (emit (LogInfo [LStr ''Disconnecting from MCP server'']) s)"
    using assms by (simp add: locker_wait_def emit_def)
  from disconnect_after_wait [OF this] assms show ?thesis
    by (auto simp: emit_def)
qed

lemma callTool_idle:
  assumes "\<not> locked s"
  shows "\<exists>r s1 res s'.
      connect w (emit (LogInfo [LStr ''tool call'', LStr n]) s) = Some (r, s1)
    \<and> callTool w n i s = Some (res, s')
    \<and> toolInfo s' = toolInfo s1 \<and> isConnected s' = isConnected s1 \<and> locked s' = locked s1
    \<and> \<not> locked s1 \<and> set (trace s1) \<subseteq> set (trace s')"
proof -
  let ?s0 = "emit (LogInfo [LStr ''tool call'', LStr n]) s"
  have "locked ?s0 \<longrightarrow> inflight ?s0 \<noteq> None" using assms by (simp add: emit_def)
  from connect_total [OF this, of w] obtain s1 where
    c: "connect w ?s0 = Some (Inr (client s1), s1)" and l: "\<not> locked s1" by blast
  show ?thesis
    using c l callTool_after_connect [OF c, of i]
    by (auto simp: emit_def callTool_watch_def scheduleAutoDisconnect_def disconnectDebounce_def
        split: option.splits sum.splits)
qed

subsection \<open>Reachable states\<close>

text \<open>
  A new manager is idle, every operation on an idle manager returns with the manager
  idle, and the lock is held only by a parked \<open>connect()\<close>: the states in which an
  operation can be called satisfy the hypothesis on the lock made below.
\<close>

lemma created_idle:
  "\<not> locked (createMCPClient n cfg secs)" "\<not> isConnected (createMCPClient n cfg secs)"
  "trace (createMCPClient n cfg secs) = []" "serverConfig (createMCPClient n cfg secs) = cfg"
  by (simp_all add: createMCPClient_def)

lemma run_op_idle:
  assumes "\<not> locked s"
  shows "\<exists>s'. run_op w c s = Some s' \<and> \<not> locked s'"
proof (cases c)
  case OpConnect
  have "locked s \<longrightarrow> inflight s \<noteq> None" using assms by simp
  from connect_total [OF this, of w] show ?thesis using OpConnect by (auto simp: run_op_def)
next
  case OpDisconnect
  from disconnect_idle [OF assms, of w] show ?thesis using OpDisconnect
    by (auto simp: run_op_def)
next
  case (OpCallTool n i)
  from callTool_idle [OF assms, of w n i] show ?thesis using OpCallTool
    by (auto simp: run_op_def)
qed

lemma run_ops_idle:
  "\<not> locked s \<Longrightarrow> \<exists>s'. run_ops ops s = Some s' \<and> \<not> locked s'"
proof (induction ops arbitrary: s)
  case Nil
  then show ?case by simp
next
  case (Cons a ops)
  obtain w c where a: "a = (w, c)" by (cases a)
  from run_op_idle [OF Cons.prems, of w c] obtain s1 where
    s1: "run_op w c s = Some s1" "\<not> locked s1" by blast
  from Cons.IH [OF s1(2)] s1(1) a show ?case by simp
qed

lemma connect_begin_parked:
  "connect_begin w s = (Inr h, s1) \<Longrightarrow> locked s1 \<and> inflight s1 = Some (AwaitHandshake h)"
  by (auto simp: connect_begin_def emit_def Let_def split: prod.splits sum.splits
      dest!: build_transport_frame)

lemma connect_connected_parked:
  "locked s \<Longrightarrow> locked (connect_connected h s)
     \<and> inflight (connect_connected h s) = Some (AwaitListTools h)"
  by (simp add: connect_connected_def emit_def Let_def)

subsection \<open>Under the network-only policy\<close>

text \<open>
  While the policy is active, a manager with a Stdio-shaped configuration stays
  disconnected, and no operation on it constructs a transport or starts a handshake.
\<close>

lemma connect_under_policy:
  assumes "isMaybeStdioConfig (serverConfig s)" and "sse_only w"
    and "\<not> locked s" and "\<not> isConnected s"
  shows "connect w s =
     Some (Inr (client s),
           s\<lparr>next_client := Suc (next_client s),
              trace := trace s @ [NewClient (next_client s),
                LogError [LErr (JsError ''Error'' ''Stdio transport is not supported'')]],
              isConnected := False,
              error := Some (JsError ''Error'' ''Stdio transport is not supported''),
              locked := False, inflight := None\<rparr>)"
  using assms by (simp add: connect_def connect_exit_def connect_try_def connect_begin_def
      connect_catch_def build_transport_def emit_def Let_def)

lemma run_op_under_policy:
  assumes "isMaybeStdioConfig (serverConfig s)" and "sse_only w"
    and "\<not> locked s" and "\<not> isConnected s"
    and "\<forall>ev \<in> set (trace s). \<not> is_transport_event ev"
  shows "\<exists>s'. run_op w c s = Some s' \<and> serverConfig s' = serverConfig s
     \<and> \<not> locked s' \<and> \<not> isConnected s' \<and> (\<forall>ev \<in> set (trace s'). \<not> is_transport_event ev)"
proof (cases c)
  case OpConnect
  then show ?thesis using connect_under_policy [OF assms(1-4)] assms(5)
    by (auto simp: run_op_def)
next
  case OpDisconnect
  have "locker_wait w (emit (LogInfo [LStr ''Disconnecting from MCP server'']) s)
      = Some (emit (LogInfo [LStr ''Disconnecting from MCP server'']) s)"
    using assms(3) by (simp add: locker_wait_def emit_def)
  from disconnect_after_wait [OF this] show ?thesis using OpDisconnect assms
    by (auto simp: run_op_def emit_def split: option.splits)
next
  case (OpCallTool n i)
  let ?s0 = "emit (LogInfo [LStr ''tool call'', LStr n]) s"
  have a0: "isMaybeStdioConfig (serverConfig ?s0)" "\<not> locked ?s0" "\<not> isConnected ?s0"
    using assms by (simp_all add: emit_def)
  note c0 = connect_under_policy [OF a0(1) assms(2) a0(2,3)]
  show ?thesis
    using OpCallTool assms callTool_after_connect [OF c0, of i]
    by (auto simp: run_op_def emit_def callTool_watch_def scheduleAutoDisconnect_def
        disconnectDebounce_def split: option.splits sum.splits)
qed

lemma run_ops_under_policy:
  assumes "\<forall>(w, c) \<in> set ops. sse_only w"
    and "isMaybeStdioConfig (serverConfig s)"
    and "\<not> locked s" and "\<not> isConnected s"
    and "\<forall>ev \<in> set (trace s). \<not> is_transport_event ev"
  shows "\<exists>s'. run_ops ops s = Some s' \<and> serverConfig s' = serverConfig s
     \<and> \<not> locked s' \<and> \<not> isConnected s' \<and> (\<forall>ev \<in> set (trace s'). \<not> is_transport_event ev)"
  using assms
proof (induction ops arbitrary: s)
  case Nil
  then show ?case by simp
next
  case (Cons a ops)
  obtain w c where a: "a = (w, c)" by (cases a)
  then have w: "sse_only w" using Cons.prems(1) by simp
  from run_op_under_policy [OF Cons.prems(2) w Cons.prems(3,4,5), of c] obtain s1 where
    s1: "run_op w c s = Some s1" "serverConfig s1 = serverConfig s" "\<not> locked s1"
      "\<not> isConnected s1" "\<forall>ev \<in> set (trace s1). \<not> is_transport_event ev"
    by blast
  have "\<forall>(w, c) \<in> set ops. sse_only w" using Cons.prems(1) by simp
  from Cons.IH [OF this _ s1(3,4,5)] s1(1,2) Cons.prems(2) a show ?case by auto
qed

lemma policy_error_iff:
  "fst (build_transport w s) = Inl (JsError ''Error'' ''Stdio transport is not supported'')
     \<longleftrightarrow> isMaybeStdioConfig (serverConfig s) \<and> sse_only w"
  by (auto simp: build_transport_def MCPStdioConfigZodSchema_parse_def
      MCPSseConfigZodSchema_parse_def isMaybeStdioConfig_def isMaybeSseConfig_def
      split: mcp_server_config.splits if_splits)

lemma zero_delay_manager_eq:
  "zero_delay_manager =
     sse_manager\<lparr>autoDisconnectSeconds := Some 0, client := Some 0, isConnected := True,
                  toolInfo := [toolInfo_of echo_tool],
                  tools := [(''echo'', build_wrapper echo_tool)],
                  next_client := 1,
                  trace := [NewClient 0, NewSseTransport ''http://localhost:3000/sse'' None,
                            Handshake 0, LogInfo [LStr ''Connected to MCP server''],
                            ListTools 0]\<rparr>"
  by (simp add: zero_delay_manager_def connect_defs ok_world_def sse_manager_def
      createMCPClient_def echo_tool_def Let_def)

subsection \<open>Where the tool information is written\<close>

lemma connect_listed_toolInfo:
  "toolInfo (snd (connect_listed w h s)) =
     (case list_tools_result w of Inl e \<Rightarrow> toolInfo s | Inr ts \<Rightarrow> map toolInfo_of ts)"
  by (auto simp: connect_listed_def scheduleAutoDisconnect_def disconnectDebounce_def emit_def
      Let_def split: sum.splits option.splits)

lemma connect_shaken_toolInfo:
  "toolInfo (snd (connect_shaken w h s)) =
     (if handshake_result w = None
      then case list_tools_result w of Inl e \<Rightarrow> toolInfo s | Inr ts \<Rightarrow> map toolInfo_of ts
      else toolInfo s)"
proof (cases "handshake_result w")
  case None
  have "toolInfo (connect_connected h s) = toolInfo s"
    by (simp add: connect_connected_def emit_def Let_def)
  then show ?thesis using None
    by (simp add: connect_shaken_def connect_listed_toolInfo split: sum.splits)
next
  case (Some e)
  then show ?thesis by (simp add: connect_shaken_def)
qed

lemma connect_begin_result:
  "fst (connect_begin w s) =
     (case fst (build_transport w s) of Inl e \<Rightarrow> Inl e | Inr u \<Rightarrow> Inr (next_client s))"
proof -
  let ?s2 = "emit (NewClient (next_client s)) (s\<lparr>locked := True, next_client := Suc (next_client s)\<rparr>)"
  have "fst (build_transport w ?s2) = fst (build_transport w s)"
    by (rule build_transport_result) (simp add: emit_def)
  then show ?thesis
    by (cases "build_transport w ?s2")
       (auto simp: connect_begin_def Let_def split: sum.splits prod.splits)
qed

lemma connect_try_toolInfo:
  "toolInfo (snd (connect_try w s)) =
     (if fst (build_transport w s) = Inr () \<and> handshake_result w = None
      then case list_tools_result w of Inl e \<Rightarrow> toolInfo s | Inr ts \<Rightarrow> map toolInfo_of ts
      else toolInfo s)"
proof (cases "connect_begin w s")
  case (Pair rb sb)
  have t: "toolInfo sb = toolInfo s" using connect_begin_frame [OF Pair] by simp
  have r: "rb = (case fst (build_transport w s) of Inl e \<Rightarrow> Inl e | Inr u \<Rightarrow> Inr (next_client s))"
    using connect_begin_result [of w s] Pair by simp
  show ?thesis
  proof (cases "fst (build_transport w s)")
    case (Inl e)
    then show ?thesis using Pair r t by (simp add: connect_try_def)
  next
    case (Inr u)
    then show ?thesis using Pair r t
      by (auto simp: connect_try_def connect_shaken_toolInfo split: sum.splits)
  qed
qed

lemma connect_exit_toolInfo: "toolInfo (snd (connect_exit c)) = toolInfo (snd c)"
  by (cases c) (auto simp: connect_exit_def connect_catch_def emit_def Let_def split: sum.splits)

lemma connect_resume_toolInfo:
  "toolInfo (snd (connect_resume w pc s)) =
     (case pc of
        AwaitHandshake h \<Rightarrow>
          if handshake_result w = None
          then case list_tools_result w of Inl e \<Rightarrow> toolInfo s | Inr ts \<Rightarrow> map toolInfo_of ts
          else toolInfo s
      | AwaitListTools h \<Rightarrow>
          (case list_tools_result w of Inl e \<Rightarrow> toolInfo s | Inr ts \<Rightarrow> map toolInfo_of ts))"
  by (cases pc)
     (simp_all add: connect_resume_def connect_exit_toolInfo connect_shaken_toolInfo
        connect_listed_toolInfo)

lemma locker_wait_toolInfo:
  assumes "locker_wait w s = Some s1"
  shows "toolInfo s1 =
     (if locked s
      then case inflight s of
             None \<Rightarrow> toolInfo s
           | Some pc \<Rightarrow> toolInfo (snd (connect_resume w pc s))
      else toolInfo s)"
  using assms by (auto simp: locker_wait_def split: option.splits if_splits)

lemma connect_toolInfo:
  assumes "connect w s = Some (r, s')"
  shows "toolInfo s' =
     (if locked s
      then case inflight s of
             None \<Rightarrow> toolInfo s
           | Some pc \<Rightarrow> toolInfo (snd (connect_resume w pc s))
      else if \<not> isConnected s \<and> fst (build_transport w s) = Inr () \<and> handshake_result w = None
      then case list_tools_result w of Inl e \<Rightarrow> toolInfo s | Inr ts \<Rightarrow> map toolInfo_of ts
      else toolInfo s)"
proof (cases "locked s")
  case True
  then show ?thesis using assms
    by (auto simp: connect_def locker_wait_def split: option.splits)
next
  case False
  show ?thesis
  proof (cases "isConnected s")
    case True
    then show ?thesis using assms False by (auto simp: connect_def)
  next
    case c: False
    from assms False c have "s' = snd (connect_exit (connect_try w s))"
      by (auto simp: connect_def)
    then show ?thesis using False c
      by (simp add: connect_exit_toolInfo connect_try_toolInfo)
  qed
qed

lemma run_op_toolInfo:
  assumes "locked s \<longrightarrow> inflight s \<noteq> None"
  shows "\<exists>s'. run_op w c s = Some s' \<and> \<not> locked s'
     \<and> toolInfo s' =
         (if locked s
          then case inflight s of
                 None \<Rightarrow> toolInfo s
               | Some pc \<Rightarrow> toolInfo (snd (connect_resume w pc s))
          else if c \<noteq> OpDisconnect \<and> \<not> isConnected s \<and> fst (build_transport w s) = Inr ()
                  \<and> handshake_result w = None
          then case list_tools_result w of Inl e \<Rightarrow> toolInfo s | Inr ts \<Rightarrow> map toolInfo_of ts
          else toolInfo s)
     \<and> (c = OpDisconnect \<longrightarrow> \<not> isConnected s' \<and> client s' = None)"
proof (cases c)
  case OpConnect
  from connect_total [OF assms, of w] obtain s' where
    c': "connect w s = Some (Inr (client s'), s')" and l: "\<not> locked s'" by blast
  from connect_toolInfo [OF c'] c' l OpConnect show ?thesis
    by (simp add: run_op_def)
next
  case OpDisconnect
  let ?s0 = "emit (LogInfo [LStr ''Disconnecting from MCP server'']) s"
  have s0: "locked ?s0 = locked s" "inflight ?s0 = inflight s" "toolInfo ?s0 = toolInfo s"
    by (simp_all add: emit_def)
  have "locked ?s0 \<longrightarrow> inflight ?s0 \<noteq> None" using assms s0 by simp
  from locker_wait_total [OF this, of w] obtain s1 where
    w1: "locker_wait w ?s0 = Some s1" and l: "\<not> locked s1" by blast
  have r: "toolInfo (snd (connect_resume w pc ?s0)) = toolInfo (snd (connect_resume w pc s))" for pc
    by (auto simp: connect_resume_toolInfo s0 split: connect_pc.splits sum.splits)
  have "toolInfo s1 =
     (if locked s
      then case inflight s of
             None \<Rightarrow> toolInfo s
           | Some pc \<Rightarrow> toolInfo (snd (connect_resume w pc s))
      else toolInfo s)"
    using locker_wait_toolInfo [OF w1] by (auto simp: s0 r split: option.splits)
  then show ?thesis
    using disconnect_after_wait [OF w1] l OpDisconnect by (simp add: run_op_def)
next
  case (OpCallTool n i)
  let ?s0 = "emit (LogInfo [LStr ''tool call'', LStr n]) s"
  have s0: "locked ?s0 = locked s" "inflight ?s0 = inflight s" "toolInfo ?s0 = toolInfo s"
    "isConnected ?s0 = isConnected s" "serverConfig ?s0 = serverConfig s"
    by (simp_all add: emit_def)
  have b: "fst (build_transport w ?s0) = fst (build_transport w s)"
    by (rule build_transport_result) (simp add: s0)
  have "locked ?s0 \<longrightarrow> inflight ?s0 \<noteq> None" using assms s0 by simp
  from connect_total [OF this, of w] obtain s1 where
    c1: "connect w ?s0 = Some (Inr (client s1), s1)" and l: "\<not> locked s1" by blast
  have r: "toolInfo (snd (connect_resume w pc ?s0)) = toolInfo (snd (connect_resume w pc s))" for pc
    by (auto simp: connect_resume_toolInfo s0 split: connect_pc.splits sum.splits)
  have t1: "toolInfo s1 =
     (if locked s
      then case inflight s of
             None \<Rightarrow> toolInfo s
           | Some pc \<Rightarrow> toolInfo (snd (connect_resume w pc s))
      else if \<not> isConnected s \<and> fst (build_transport w s) = Inr () \<and> handshake_result w = None
      then case list_tools_result w of Inl e \<Rightarrow> toolInfo s | Inr ts \<Rightarrow> map toolInfo_of ts
      else toolInfo s)"
    using connect_toolInfo [OF c1] by (auto simp: s0 b r split: option.splits sum.splits)
  obtain res s' where t: "callTool w n i s = Some (res, s')"
    and f: "toolInfo s' = toolInfo s1" "locked s' = locked s1"
    using callTool_after_connect [OF c1, of i]
    by (auto simp: emit_def callTool_watch_def scheduleAutoDisconnect_def disconnectDebounce_def
        split: option.splits sum.splits)
  show ?thesis using t f l t1 OpCallTool by (simp add: run_op_def)
qed

subsection \<open>The snapshot\<close>

text \<open>
  C7.  The status of the snapshot returned by \<open>getInfo()\<close> is computed from the lock and
  the connected flag of the state it is called in: it is \<open>loading\<close> if and only if the
  lock is held, otherwise \<open>connected\<close> if the flag is set and \<open>disconnected\<close> if not.
\<close>

theorem getInfo_status:
  "info_status (getInfo s) =
     (if locked s then Loading else if isConnected s then Connected else Disconnected)
   \<and> (info_status (getInfo s) = Loading \<longleftrightarrow> locked s)
   \<and> (info_status (getInfo s) = Connected \<longleftrightarrow> \<not> locked s \<and> isConnected s)
   \<and> (info_status (getInfo s) = Disconnected \<longleftrightarrow> \<not> locked s \<and> \<not> isConnected s)"
  by (simp add: getInfo_def)

text \<open>A manager whose \<open>connect()\<close> awaits the handshake is \<open>loading\<close>.\<close>

theorem getInfo_status_witness:
  "locked (snd (connect_begin ok_world sse_manager))
   \<and> info_status (getInfo (snd (connect_begin ok_world sse_manager))) = Loading"
  using getInfo_status [of "snd (connect_begin ok_world sse_manager)"]
  by (simp add: connect_defs example_defs Let_def)

subsection \<open>The tool wrappers\<close>

text \<open>
  C9.  The \<open>execute\<close> of the wrapper built from a tool descriptor: when the signal given
  at the invocation is already cancelled it throws the signal's reason and the manager is
  left as it was, so that no remote call is issued; when nothing is cancelled (no
  options, no signal, or a signal that is not cancelled) it is \<open>callTool\<close> with the name
  of the tool and the given parameters.
\<close>

theorem execute_abort:
  "(abortSignal opts = Some sg \<and> aborted sg \<longrightarrow>
      execute w (build_wrapper t) params (Some opts) s = Some (Inl (reason sg), s))
   \<and> (options = None \<or> (\<exists>opts'. options = Some opts' \<and> (abortSignal opts' = None
         \<or> (\<exists>sg'. abortSignal opts' = Some sg' \<and> \<not> aborted sg'))) \<longrightarrow>
      execute w (build_wrapper t) params options s = callTool w (tool_name t) (Some params) s)"
  by (auto simp: execute_def throwIfAborted_def build_wrapper_def)

theorem execute_abort_witness:
  "execute ok_world (build_wrapper echo_tool) (JObj [])
      (Some \<lparr>abortSignal = Some \<lparr>aborted = True, reason = boom\<rparr>\<rparr>) sse_manager
     = Some (Inl boom, sse_manager)
   \<and> execute ok_world (build_wrapper echo_tool) (JObj []) None sse_manager
     = callTool ok_world ''echo'' (Some (JObj [])) sse_manager"
  using execute_abort [of "\<lparr>abortSignal = Some \<lparr>aborted = True, reason = boom\<rparr>\<rparr>"
      "\<lparr>aborted = True, reason = boom\<rparr>" ok_world echo_tool "JObj []" sse_manager None]
  by (simp add: echo_tool_def)

subsection \<open>connect\<close>

text \<open>
  C5.  A manager with a Stdio-shaped configuration that is neither locked nor connected,
  under the network-only policy: \<open>connect()\<close> ends with the error "Stdio transport is not
  supported" stored, disconnected and unlocked, and all it has done is to construct the
  \<open>Client\<close> object and to log the error: no transport is constructed and no handshake,
  which would spawn the subprocess, is issued.
\<close>

theorem connect_stdio_under_sse_only:
  assumes "serverConfig s = StdioShaped c" and "sse_only w"
    and "\<not> locked s" and "\<not> isConnected s"
  shows "\<exists>s'. connect w s = Some (Inr (client s), s')
            \<and> error s' = Some (JsError ''Error'' ''Stdio transport is not supported'')
            \<and> \<not> isConnected s' \<and> \<not> locked s'
            \<and> trace s' = trace s @ [NewClient (next_client s),
                 LogError [LErr (JsError ''Error'' ''Stdio transport is not supported'')]]"
  using assms by (simp add: connect_defs Let_def)

theorem connect_stdio_under_sse_only_witness:
  "\<exists>s'. connect (ok_world\<lparr>sse_only := True\<rparr>) stdio_manager = Some (Inr None, s')
      \<and> error s' = Some (JsError ''Error'' ''Stdio transport is not supported'')
      \<and> \<not> isConnected s' \<and> \<not> locked s'
      \<and> trace s' = [NewClient 0,
           LogError [LErr (JsError ''Error'' ''Stdio transport is not supported'')]]"
  using connect_stdio_under_sse_only [of stdio_manager
      "\<lparr>command = ''npx'', args = Some [''@playwright/mcp@latest''],
        env = Some [(''HOME'', ''/tmp/pw'')]\<rparr>" "ok_world\<lparr>sse_only := True\<rparr>"]
  by (simp add: example_defs)

text \<open>
  C10.  When the handshake has succeeded and the rest of the \<open>try\<close> block throws (the
  tool listing fails, or a wrapper cannot be built), \<open>connect()\<close> returns the handle of
  the client it has just stored, although the manager is disconnected and holds the
  error.
\<close>

theorem connect_keeps_handle:
  assumes "\<not> locked s" and "\<not> isConnected s"
    and "connect_begin w s = (Inr h, s1)"
    and "handshake_result w = None"
    and "fst (connect_listed w h (connect_connected h s1)) = Inl e"
  shows "\<exists>s'. connect w s = Some (Inr (Some h), s') \<and> client s' = Some h
            \<and> \<not> isConnected s' \<and> error s' = Some e"
proof -
  obtain s2 where s2: "connect_listed w h (connect_connected h s1) = (Inl e, s2)"
    using assms(5) by (cases "connect_listed w h (connect_connected h s1)") auto
  have c: "client s2 = Some h"
    using s2 by (auto simp: connect_listed_def connect_connected_def emit_def Let_def
        split: sum.splits)
  have "connect_try w s = (Inl e, s2)"
    using assms s2 by (simp add: connect_try_def connect_shaken_def)
  then show ?thesis
    using assms(1,2) c
    by (simp add: connect_def connect_exit_def connect_catch_def emit_def Let_def)
qed

theorem connect_keeps_handle_witness:
  "\<exists>s'. connect (ok_world\<lparr>list_tools_result := Inl boom\<rparr>) sse_manager
           = Some (Inr (Some 0), s')
      \<and> client s' = Some 0 \<and> \<not> isConnected s' \<and> error s' = Some boom"
  using connect_keeps_handle [of sse_manager "ok_world\<lparr>list_tools_result := Inl boom\<rparr>" 0
      "snd (connect_begin (ok_world\<lparr>list_tools_result := Inl boom\<rparr>) sse_manager)" boom]
  by (simp add: connect_begin_def build_transport_def emit_def isMaybeStdioConfig_def
      isMaybeSseConfig_def MCPSseConfigZodSchema_parse_def connect_listed_def example_defs
      Let_def)



text \<open>
  What \<open>connect()\<close> passes to the subprocess.  A manager with a valid Stdio configuration
  (a non-empty command), neither locked nor connected, without the network-only policy;
  the process environment and the configured environment are objects, so their keys are
  distinct.  \<open>connect()\<close> constructs the subprocess transport, before it issues the
  handshake, with the configured command and arguments, the current directory of the
  process as working directory, and an environment in which a key other than
  \<open>__proto__\<close> has the configured value if the configuration has the key, otherwise the
  value of the process environment if that is defined, and is absent otherwise.  The key
  \<open>__proto__\<close> is never in it.
\<close>

lemma stdio_environment:
  assumes "serverConfig s = StdioShaped c" and "command c \<noteq> []" and "\<not> sse_only w"
    and "\<not> locked s" and "\<not> isConnected s"
    and "distinct (map fst (process_env w))"
    and "\<forall>kvs. env c = Some kvs \<longrightarrow> distinct (map fst kvs)"
  shows "\<exists>r s' rest.
      connect w s = Some (r, s')
    \<and> trace s' = trace s @ [NewClient (next_client s),
                     NewStdioTransport (command c) (args c) (stdio_env w c) (process_cwd w),
                     Handshake (next_client s)] @ rest
    \<and> (\<forall>k. map_of (stdio_env w c) k =
          (if k = ''__proto__'' then None
           else case (case env c of None \<Rightarrow> None | Some kvs \<Rightarrow> map_of kvs k) of
                  Some v \<Rightarrow> Some v
                | None \<Rightarrow> (case map_of (process_env w) k of
                             Some (Some v) \<Rightarrow> Some v | _ \<Rightarrow> None)))"
proof -
  let ?h = "next_client s"
  let ?s2 = "emit (NewClient ?h) (s\<lparr>locked := True, next_client := Suc ?h\<rparr>)"
  let ?tr = "NewStdioTransport (command c) (args c) (stdio_env w c) (process_cwd w)"
  let ?s4 = "emit (Handshake ?h) ((emit ?tr ?s2)\<lparr>inflight := Some (AwaitHandshake ?h)\<rparr>)"
  have b: "connect_begin w s = (Inr ?h, ?s4)"
    using assms(1-3)
    by (simp add: connect_begin_def build_transport_def isMaybeStdioConfig_def
        MCPStdioConfigZodSchema_parse_def emit_def Let_def)
  have grow: "\<exists>rest. trace (snd (connect_shaken w ?h ?s4)) = trace ?s4 @ rest"
    by (auto simp: connect_shaken_def connect_listed_def connect_connected_def emit_def
        scheduleAutoDisconnect_def disconnectDebounce_def Let_def
        split: option.splits sum.splits)
  have exit: "\<exists>rest. trace (snd (connect_exit x)) = trace (snd x) @ rest" for x
    by (cases x) (auto simp: connect_exit_def connect_catch_def emit_def Let_def split: sum.splits)
  obtain rest1 where r1: "trace (snd (connect_try w s)) = trace ?s4 @ rest1"
    using grow b by (auto simp: connect_try_def)
  obtain rest2 where r2:
    "trace (snd (connect_exit (connect_try w s))) = trace (snd (connect_try w s)) @ rest2"
    using exit by blast
  have c: "connect w s = Some (connect_exit (connect_try w s))"
    using assms(4,5) by (simp add: connect_def)
  have tr: "trace (snd (connect_exit (connect_try w s))) =
      trace s @ [NewClient ?h, ?tr, Handshake ?h] @ (rest1 @ rest2)"
    using r1 r2 by (simp add: emit_def)
  show ?thesis
    using c tr stdio_env_lookup [OF assms(6,7)]
    by (intro exI [of _ "fst (connect_exit (connect_try w s))"]
        exI [of _ "snd (connect_exit (connect_try w s))"]
        exI [of _ "rest1 @ rest2"]) simp
qed

text \<open>
  C6.  The claim holds of every key but one.  For the configuration with the entries
  \<open>__proto__\<close> and \<open>HOME\<close>, which is valid, \<open>connect()\<close> constructs the subprocess
  transport with an environment that has the configured \<open>HOME\<close> and the ambient \<open>PATH\<close>
  and no entry for \<open>__proto__\<close>: the configured entry is not passed to the subprocess.
\<close>

theorem stdio_environment_drops_proto:
  "map_option (serverConfig \<circ> snd) (connect ok_world proto_manager)
     = Some (StdioShaped \<lparr>command = ''npx'', args = None,
                          env = Some [(''__proto__'', ''/x''), (''HOME'', ''/tmp/pw'')]\<rparr>)
   \<and> map_option (take 3 \<circ> trace \<circ> snd) (connect ok_world proto_manager)
     = Some [NewClient 0,
             NewStdioTransport ''npx'' None
               [(''PATH'', ''/usr/bin''), (''HOME'', ''/tmp/pw'')] ''/srv/app'',
             Handshake 0]"
  by (simp add: proto_manager_def connect_defs ok_world_def createMCPClient_def echo_tool_def
      stdio_env_def drop_undefined_def object_spread_def config_env_entries_def Let_def)

subsection \<open>disconnect\<close>

text \<open>
  C8.  On a manager whose lock, if held, is held by a parked \<open>connect()\<close>, \<open>disconnect()\<close>
  first waits for the lock: when the lock is held it resumes in the state \<open>s1\<close> that the
  parked \<open>connect()\<close> leaves when it has run to its end, and when the lock is free it goes
  on at once.  From \<open>s1\<close> it clears the connected flag and the handle whatever their
  values, and closes the client that was stored, if there was one; when closing fails
  the error is logged.  It returns and does not throw.
\<close>

theorem disconnect_waits_then_tears_down:
  assumes "locked s \<longrightarrow> inflight s \<noteq> None"
  shows "\<exists>s1 s'.
      locker_wait w (emit (LogInfo [LStr ''Disconnecting from MCP server'']) s) = Some s1
    \<and> (\<not> locked s \<longrightarrow> s1 = emit (LogInfo [LStr ''Disconnecting from MCP server'']) s)
    \<and> (\<forall>pc. locked s \<and> inflight s = Some pc \<longrightarrow>
          s1 = snd (connect_resume w pc (emit (LogInfo [LStr ''Disconnecting from MCP server'']) s)))
    \<and> \<not> locked s1
    \<and> disconnect w s = Some (Inr (), s')
    \<and> \<not> isConnected s' \<and> client s' = None
    \<and> s' = s1\<lparr>isConnected := False, client := None,
               trace := trace s1 @
                 (case client s1 of
                    None \<Rightarrow> []
                  | Some h \<Rightarrow>
                      Close h # (case close_result w of
                                   None \<Rightarrow> [] | Some e \<Rightarrow> [LogError [LErr e]]))\<rparr>"
proof -
  let ?s0 = "emit (LogInfo [LStr ''Disconnecting from MCP server'']) s"
  have wf: "locked ?s0 \<longrightarrow> inflight ?s0 \<noteq> None"
    using assms by (simp add: emit_def)
  obtain s1 where w: "locker_wait w ?s0 = Some s1" and l: "\<not> locked s1"
    using locker_wait_total [OF wf] by blast
  have a: "\<not> locked s \<longrightarrow> s1 = ?s0"
    using w by (auto simp: locker_wait_def emit_def)
  have b: "\<forall>pc. locked s \<and> inflight s = Some pc \<longrightarrow> s1 = snd (connect_resume w pc ?s0)"
    using w by (auto simp: locker_wait_def emit_def)
  show ?thesis
    using w l a b disconnect_after_wait [OF w] by simp
qed

theorem disconnect_waits_then_tears_down_witness:
  "\<exists>s'. disconnect (ok_world\<lparr>close_result := Some boom\<rparr>)
            (snd (connect_begin ok_world sse_manager)) = Some (Inr (), s')
      \<and> \<not> isConnected s' \<and> client s' = None \<and> \<not> locked s'
      \<and> trace s' =
          [NewClient 0, NewSseTransport ''http://localhost:3000/sse'' None, Handshake 0,
           LogInfo [LStr ''Disconnecting from MCP server''],
           LogInfo [LStr ''Connected to MCP server''], ListTools 0, Debounce 60000,
           Close 0, LogError [LErr boom]]"
proof -
  let ?w = "ok_world\<lparr>close_result := Some boom\<rparr>"
  let ?s = "snd (connect_begin ok_world sse_manager)"
  have s: "?s = sse_manager\<lparr>locked := True, next_client := 1,
                 inflight := Some (AwaitHandshake 0),
                 trace := [NewClient 0, NewSseTransport ''http://localhost:3000/sse'' None,
                           Handshake 0]\<rparr>"
    by (simp add: connect_defs example_defs Let_def)
  have wf: "locked ?s \<longrightarrow> inflight ?s \<noteq> None"
    by (simp add: s)
  from disconnect_waits_then_tears_down [OF wf, of ?w] show ?thesis
    unfolding s by (auto simp: connect_defs example_defs Let_def toolInfo_of_def build_wrapper_def)
qed

subsection \<open>callTool\<close>

text \<open>
  C2, amended.  On a manager whose lock, if held, is held by a parked \<open>connect()\<close>,
  \<open>callTool\<close> returns and does not throw, after the implicit \<open>connect()\<close>, and its result
  is an object: the remote result itself when \<open>connect()\<close> returns a handle and the remote
  call answers with one (an error reported by the remote tool included); the error result
  made from the failure when the remote call fails at the transport level; the error
  result for "Tool call failed with null" when the remote call answers with nothing, or
  when \<open>connect()\<close> returns no handle.  An error result has \<open>isError\<close> true and a content
  array of one text item.
\<close>

theorem callTool_never_raises:
  assumes "locked s \<longrightarrow> inflight s \<noteq> None"
  shows "\<exists>r s1 res s'.
      connect w (emit (LogInfo [LStr ''tool call'', LStr n]) s) = Some (Inr r, s1)
    \<and> callTool w n i s = Some (Inr (Some res), s')
    \<and> (case r of
          None \<Rightarrow> res = tool_call_failed w (JsError ''Error'' ''Tool call failed with null'')
        | Some h \<Rightarrow>
            (case call_tool_result w of
               Inl e \<Rightarrow> res = tool_call_failed w e
             | Inr None \<Rightarrow>
                 res = tool_call_failed w (JsError ''Error'' ''Tool call failed with null'')
             | Inr (Some v) \<Rightarrow> res = v))
    \<and> (\<forall>e. isError (tool_call_failed w e) = Some True \<and> length (content (tool_call_failed w e)) = 1)"
proof -
  let ?s0 = "emit (LogInfo [LStr ''tool call'', LStr n]) s"
  have "locked ?s0 \<longrightarrow> inflight ?s0 \<noteq> None" using assms by (simp add: emit_def)
  from connect_total [OF this, of w] obtain s1 where
    c: "connect w ?s0 = Some (Inr (client s1), s1)" by blast
  show ?thesis
    using c callTool_after_connect [OF c, of i]
    by (auto simp: tool_call_failed_def split: option.splits sum.splits)
qed

theorem callTool_never_raises_witness:
  "\<exists>s'. callTool call_fails ''echo'' None connected_manager
           = Some (Inr (Some (tool_call_failed call_fails boom)), s')
      \<and> isError (tool_call_failed call_fails boom) = Some True"
proof -
  have wf: "locked connected_manager \<longrightarrow> inflight connected_manager \<noteq> None"
    by (simp add: connected_manager_eq sse_manager_def createMCPClient_def)
  have c: "connect call_fails (emit (LogInfo [LStr ''tool call'', LStr ''echo'']) connected_manager)
      = Some (Inr (Some 0), emit (LogInfo [LStr ''tool call'', LStr ''echo'']) connected_manager)"
    by (simp add: connected_manager_eq sse_manager_def createMCPClient_def connect_def emit_def)
  have r: "call_tool_result call_fails = Inl boom"
    by (simp add: call_fails_def ok_world_def)
  from callTool_never_raises [OF wf, of call_fails "''echo''" None] show ?thesis
    by (auto simp: c r)
qed

text \<open>
  The claim C2 as it was stated fails where the tool listing fails after the handshake:
  the implicit \<open>connect()\<close> stores the error and leaves the manager disconnected, yet
  it returns the handle, the remote call is made, and \<open>callTool\<close> returns the remote
  result, which is no error result.
\<close>

theorem callTool_connect_failure_counterexample:
  "map_option fst
     (connect listing_fails (emit (LogInfo [LStr ''tool call'', LStr ''echo'']) sse_manager))
     = Some (Inr (Some 0))
   \<and> map_option (error \<circ> snd)
       (connect listing_fails (emit (LogInfo [LStr ''tool call'', LStr ''echo'']) sse_manager))
     = Some (Some boom)
   \<and> map_option (isConnected \<circ> snd)
       (connect listing_fails (emit (LogInfo [LStr ''tool call'', LStr ''echo'']) sse_manager))
     = Some False
   \<and> map_option fst (callTool listing_fails ''echo'' None sse_manager)
     = Some (Inr (Some ok_result))
   \<and> isError ok_result = None"
  by (simp add: callTool_def callTool_invoke_def safe_map_def safe_ifOk_def safe_watch_def
      safe_ifFail_def safe_unwrap_def isNull_def client_callTool_def callTool_watch_def connect_defs
      listing_fails_def ok_world_def sse_manager_def createMCPClient_def ok_result_def Let_def)

text \<open>
  C4, amended.  With a configured delay other than 0, a \<open>callTool\<close> whose implicit
  \<open>connect()\<close> returns a handle and whose remote call answers with a result (a success or
  an error reported by the remote tool) calls the scheduler right after the remote call:
  the pending disconnect, whatever it was, is the one armed with the configured delay.
\<close>

theorem callTool_rearms_on_response:
  assumes "autoDisconnectSeconds s = Some d" and "d \<noteq> 0"
    and "connect w (emit (LogInfo [LStr ''tool call'', LStr n]) s) = Some (Inr (Some h), s1)"
    and "call_tool_result w = Inr (Some v)"
  shows "\<exists>s'. callTool w n i s = Some (Inr (Some v), s')
     \<and> pending_disconnect s' = Some (d * 1000)
     \<and> trace s' = trace s1 @ [RemoteCall h n i, Debounce (d * 1000)] @
         (if isError v = Some True
          then [LogError [LStr ''Tool call failed'', LStr n, LContent (content v)]] else [])"
proof -
  have "autoDisconnectSeconds s1 = Some d"
    using connect_options [OF assms(3)] assms(1) by (simp add: emit_def)
  then show ?thesis
    using callTool_after_connect [OF assms(3), of i] assms(2,4)
    by (simp add: callTool_watch_def scheduleAutoDisconnect_def disconnectDebounce_def emit_def)
qed

theorem callTool_rearms_on_response_witness:
  "\<exists>s'. callTool ok_world ''echo'' None connected_manager = Some (Inr (Some ok_result), s')
     \<and> pending_disconnect s' = Some 60000
     \<and> trace s' = trace connected_manager @
         [LogInfo [LStr ''tool call'', LStr ''echo''], RemoteCall 0 ''echo'' None, Debounce 60000]"
proof -
  have c: "connect ok_world (emit (LogInfo [LStr ''tool call'', LStr ''echo'']) connected_manager)
      = Some (Inr (Some 0), emit (LogInfo [LStr ''tool call'', LStr ''echo'']) connected_manager)"
    by (simp add: connected_manager_eq sse_manager_def createMCPClient_def connect_def emit_def)
  have a: "autoDisconnectSeconds connected_manager = Some 60" "(60::int) \<noteq> 0"
    by (simp_all add: connected_manager_eq sse_manager_def createMCPClient_def)
  have r: "call_tool_result ok_world = Inr (Some ok_result)"
    by (simp add: ok_world_def)
  from callTool_rearms_on_response [OF a c r, of None] show ?thesis
    by (simp add: ok_result_def emit_def)
qed

text \<open>
  The claim C4 as it was stated fails where the remote call fails at the transport level:
  on a connected manager with a delay of 60 seconds, \<open>callTool\<close> logs the call, makes
  the remote call and logs the failure; the scheduler is not called.  It also fails for
  the configured delay 0, which is falsy: a successful call does not call the scheduler.
\<close>

theorem callTool_rearm_counterexample:
  "autoDisconnectSeconds connected_manager = Some 60
   \<and> isConnected connected_manager
   \<and> length (trace connected_manager) = 6
   \<and> map_option fst (callTool call_fails ''echo'' None connected_manager)
     = Some (Inr (Some (tool_call_failed call_fails boom)))
   \<and> map_option (drop 6 \<circ> trace \<circ> snd) (callTool call_fails ''echo'' None connected_manager)
     = Some [LogInfo [LStr ''tool call'', LStr ''echo''], RemoteCall 0 ''echo'' None,
             LogError [LStr ''Tool call failed'', LStr ''echo'', LErr boom]]
   \<and> autoDisconnectSeconds zero_delay_manager = Some 0
   \<and> isConnected zero_delay_manager
   \<and> length (trace zero_delay_manager) = 5
   \<and> map_option fst (callTool ok_world ''echo'' None zero_delay_manager)
     = Some (Inr (Some ok_result))
   \<and> map_option (drop 5 \<circ> trace \<circ> snd) (callTool ok_world ''echo'' None zero_delay_manager)
     = Some [LogInfo [LStr ''tool call'', LStr ''echo''], RemoteCall 0 ''echo'' None]"
  by (simp add: connected_manager_eq zero_delay_manager_eq callTool_def callTool_invoke_def
      safe_map_def safe_ifOk_def safe_watch_def safe_ifFail_def safe_unwrap_def isNull_def
      client_callTool_def callTool_watch_def scheduleAutoDisconnect_def
      connect_def emit_def call_fails_def ok_world_def sse_manager_def createMCPClient_def
      ok_result_def)

subsection \<open>The tool information\<close>

text \<open>
  C3, amended.  On a manager whose lock, if held, is held by a parked \<open>connect()\<close>, every
  operation returns with the lock free, and \<open>toolInfo\<close> is written by line 145 alone:
  it becomes the list of the tools listed when an attempt of \<open>connect()\<close> has its
  handshake and its tool listing succeed, and is what it was in every other case.  On
  an idle manager the attempt is the one of \<open>connect\<close> or \<open>callTool\<close> on a manager that
  is not connected and whose transport is constructed; on a locked manager it is the
  parked \<open>connect()\<close> the operation waits for.  \<open>disconnect()\<close> on an idle manager so
  leaves \<open>toolInfo\<close> as it was, with the manager disconnected and without handle.
  \<open>connect\<close> and \<open>callTool\<close> on an idle manager preserve "\<open>toolInfo\<close> is non-empty only
  when the manager is connected" as long as no wrapper construction throws.
\<close>

theorem toolInfo_written_by_listing:
  assumes "locked s \<longrightarrow> inflight s \<noteq> None"
  shows "\<exists>s'. run_op w c s = Some s' \<and> \<not> locked s'
     \<and> (\<not> locked s \<longrightarrow> toolInfo s' =
          (if c \<noteq> OpDisconnect \<and> \<not> isConnected s \<and> fst (build_transport w s) = Inr ()
              \<and> handshake_result w = None
           then case list_tools_result w of Inl e \<Rightarrow> toolInfo s | Inr ts \<Rightarrow> map toolInfo_of ts
           else toolInfo s))
     \<and> (\<forall>h. locked s \<and> inflight s = Some (AwaitHandshake h) \<longrightarrow> toolInfo s' =
          (if handshake_result w = None
           then case list_tools_result w of Inl e \<Rightarrow> toolInfo s | Inr ts \<Rightarrow> map toolInfo_of ts
           else toolInfo s))
     \<and> (\<forall>h. locked s \<and> inflight s = Some (AwaitListTools h) \<longrightarrow> toolInfo s' =
          (case list_tools_result w of Inl e \<Rightarrow> toolInfo s | Inr ts \<Rightarrow> map toolInfo_of ts))
     \<and> (c = OpDisconnect \<longrightarrow> \<not> isConnected s' \<and> client s' = None)
     \<and> (\<not> locked s \<and> c \<noteq> OpDisconnect \<and> (\<forall>t. wrapper_error w t = None)
          \<and> (toolInfo s \<noteq> [] \<longrightarrow> isConnected s)
        \<longrightarrow> (toolInfo s' \<noteq> [] \<longrightarrow> isConnected s'))"
proof -
  from run_op_toolInfo [OF assms, of w c] obtain s' where
    r: "run_op w c s = Some s'" and l: "\<not> locked s'"
    and t: "toolInfo s' =
         (if locked s
          then case inflight s of
                 None \<Rightarrow> toolInfo s
               | Some pc \<Rightarrow> toolInfo (snd (connect_resume w pc s))
          else if c \<noteq> OpDisconnect \<and> \<not> isConnected s \<and> fst (build_transport w s) = Inr ()
                  \<and> handshake_result w = None
          then case list_tools_result w of Inl e \<Rightarrow> toolInfo s | Inr ts \<Rightarrow> map toolInfo_of ts
          else toolInfo s)"
    and d: "c = OpDisconnect \<longrightarrow> \<not> isConnected s' \<and> client s' = None"
    by blast
  have i: "\<not> locked s \<longrightarrow> toolInfo s' =
          (if c \<noteq> OpDisconnect \<and> \<not> isConnected s \<and> fst (build_transport w s) = Inr ()
              \<and> handshake_result w = None
           then case list_tools_result w of Inl e \<Rightarrow> toolInfo s | Inr ts \<Rightarrow> map toolInfo_of ts
           else toolInfo s)"
    using t by simp
  have ii: "\<forall>h. locked s \<and> inflight s = Some (AwaitHandshake h) \<longrightarrow> toolInfo s' =
          (if handshake_result w = None
           then case list_tools_result w of Inl e \<Rightarrow> toolInfo s | Inr ts \<Rightarrow> map toolInfo_of ts
           else toolInfo s)"
    using t by (simp add: connect_resume_toolInfo)
  have iii: "\<forall>h. locked s \<and> inflight s = Some (AwaitListTools h) \<longrightarrow> toolInfo s' =
          (case list_tools_result w of Inl e \<Rightarrow> toolInfo s | Inr ts \<Rightarrow> map toolInfo_of ts)"
    using t by (simp add: connect_resume_toolInfo)
  have v: "toolInfo s' \<noteq> [] \<longrightarrow> isConnected s'"
    if idle: "\<not> locked s" and c: "c \<noteq> OpDisconnect"
      and nw: "\<forall>t. wrapper_error w t = None" and inv: "toolInfo s \<noteq> [] \<longrightarrow> isConnected s"
  proof (cases c)
    case OpConnect
    then obtain r' where "connect w s = Some (r', s')"
      using r by (auto simp: run_op_def)
    from connect_idle_flag [OF idle nw inv this] show ?thesis .
  next
    case OpDisconnect
    then show ?thesis using c by simp
  next
    case (OpCallTool n i)
    let ?s0 = "emit (LogInfo [LStr ''tool call'', LStr n]) s"
    from callTool_idle [OF idle, of w n i] obtain r1 s1 res s2 where
      c1: "connect w ?s0 = Some (r1, s1)" and ct: "callTool w n i s = Some (res, s2)"
      and f: "toolInfo s2 = toolInfo s1" "isConnected s2 = isConnected s1"
      by auto
    have "s2 = s'" using r ct OpCallTool by (simp add: run_op_def)
    moreover have "toolInfo s1 \<noteq> [] \<longrightarrow> isConnected s1"
      using connect_idle_flag [OF _ nw _ c1] idle inv by (simp add: emit_def)
    ultimately show ?thesis using f by simp
  qed
  show ?thesis using r l i ii iii d v by blast
qed

theorem toolInfo_written_by_listing_witness:
  "(\<exists>s'. run_op ok_world OpDisconnect connected_manager = Some s' \<and> \<not> locked s'
      \<and> toolInfo s' = [toolInfo_of echo_tool] \<and> \<not> isConnected s' \<and> client s' = None)
   \<and> (\<exists>s'. run_op ok_world OpConnect sse_manager = Some s' \<and> \<not> locked s'
      \<and> toolInfo s' = [toolInfo_of echo_tool])"
proof -
  have a: "locked connected_manager \<longrightarrow> inflight connected_manager \<noteq> None"
    "\<not> locked connected_manager"
    by (auto simp: connected_manager_eq sse_manager_def createMCPClient_def)
  have "toolInfo connected_manager = [toolInfo_of echo_tool]"
    by (simp add: connected_manager_eq)
  with toolInfo_written_by_listing [OF a(1), of ok_world OpDisconnect] a(2)
  have d: "\<exists>s'. run_op ok_world OpDisconnect connected_manager = Some s' \<and> \<not> locked s'
      \<and> toolInfo s' = [toolInfo_of echo_tool] \<and> \<not> isConnected s' \<and> client s' = None"
    by auto
  have b: "locked sse_manager \<longrightarrow> inflight sse_manager \<noteq> None" "\<not> locked sse_manager"
    "\<not> isConnected sse_manager" "fst (build_transport ok_world sse_manager) = Inr ()"
    "handshake_result ok_world = None" "list_tools_result ok_world = Inr [echo_tool]"
    by (simp_all add: sse_manager_def createMCPClient_def ok_world_def build_transport_def
        isMaybeStdioConfig_def isMaybeSseConfig_def MCPSseConfigZodSchema_parse_def)
  from toolInfo_written_by_listing [OF b(1), of ok_world OpConnect] b(2-6)
  have c: "\<exists>s'. run_op ok_world OpConnect sse_manager = Some s' \<and> \<not> locked s'
      \<and> toolInfo s' = [toolInfo_of echo_tool]"
    by auto
  from d c show ?thesis by blast
qed

text \<open>
  The claim C3 as it was stated fails at \<open>disconnect()\<close>: the connected manager, which
  has listed one tool, is disconnected afterwards and still has the tool in \<open>toolInfo\<close>.
  It also fails at a \<open>connect()\<close> in which the construction of a wrapper throws: the
  tools listed are in \<open>toolInfo\<close> and the manager is disconnected.
\<close>

theorem toolInfo_after_disconnect_counterexample:
  "isConnected connected_manager
   \<and> toolInfo connected_manager = [toolInfo_of echo_tool]
   \<and> map_option fst (disconnect ok_world connected_manager) = Some (Inr ())
   \<and> map_option (isConnected \<circ> snd) (disconnect ok_world connected_manager) = Some False
   \<and> map_option (toolInfo \<circ> snd) (disconnect ok_world connected_manager)
     = Some [toolInfo_of echo_tool]
   \<and> toolInfo sse_manager = []
   \<and> map_option (isConnected \<circ> snd) (connect wrapper_fails sse_manager) = Some False
   \<and> map_option (toolInfo \<circ> snd) (connect wrapper_fails sse_manager)
     = Some [toolInfo_of echo_tool]"
  by (simp add: connected_manager_eq disconnect_def promise_catch_def client_close_def
      connect_defs wrapper_fails_def ok_world_def sse_manager_def createMCPClient_def Let_def)

end
